theory Spec2Isabelle
  imports Main "HOL-Library.Multiset"
begin

section \<open>Data model\<close>

text \<open>
  The channels view of the dashboard (\<^verbatim>\<open>ui/src/ui/views/channels.ts\<close>,
  \<^verbatim>\<open>channels-detail.ts\<close>, \<^verbatim>\<open>channels-tabs.ts\<close>) is a set of pure functions
  from a polled status snapshot to a tree of markup templates. The embedding keeps the
  functions and replaces each template by a value that records what the template shows:
  rows of a status list, buttons with their disabled flag and click action, the tab bar
  and the content area.

  Conventions of the embedding.
  \<^item> A TypeScript field that may be \<^verbatim>\<open>null\<close> or \<^verbatim>\<open>undefined\<close> is an \<open>option\<close>;
    \<open>None\<close> stands for both, which the code never tells apart (it only uses
    \<^verbatim>\<open>?.\<close>, \<^verbatim>\<open>??\<close>, \<^verbatim>\<open>== null\<close> and truthiness on such fields).
  \<^item> A \<^verbatim>\<open>Record<string, T>\<close> is a plain object: a map \<open>string \<rightharpoonup> T\<close> of its own
    properties, behind which a lookup by key finds the members every plain object inherits
    from \<^verbatim>\<open>Object.prototype\<close> (\<open>record_get\<close> below).
  \<^item> Timestamps are milliseconds since the epoch, integers far below \<open>2^53\<close>, on which
    the arithmetic and comparisons of a JavaScript number are exact: they are \<open>int\<close>.
  \<^item> \<^verbatim>\<open>Date.now()\<close> is the parameter \<open>now\<close> of every function that reads the clock.
  \<^item> Record fields of two TypeScript types that share a name carry a prefix here
    (\<open>item_configured\<close> of a list item, \<open>configured\<close> of an account).
\<close>

subsection \<open>Untyped values\<close>

text \<open>
  \<^verbatim>\<open>snapshot.channels\<close> is a \<^verbatim>\<open>Record<string, unknown>\<close>: a channel's status
  record is whatever the gateway sent. \<open>jsval\<close> is the part of the JavaScript value
  space the views inspect with \<^verbatim>\<open>typeof\<close>, property access and truthiness. \<open>JObj m\<close>
  is a plain object with own properties \<open>m\<close>; \<open>JFun n\<close> is a function, of which the
  views can observe only that it is one and its \<^verbatim>\<open>length\<close> \<open>n\<close>. A status record
  that is an array reads as an object: the views ask a status record for named fields only.
\<close>

datatype jsval =
    JUndefined
  | JNull
  | JBool bool
  | JNum int
  | JStr string
  | JFun nat
  | JObj "string \<Rightarrow> jsval option"

datatype error = TypeError

text \<open>\<^verbatim>\<open>typeof v\<close>.\<close>

fun typeof :: "jsval \<Rightarrow> string" where
  "typeof JUndefined = ''undefined''"
| "typeof JNull = ''object''"
| "typeof (JBool b) = ''boolean''"
| "typeof (JNum n) = ''number''"
| "typeof (JStr s) = ''string''"
| "typeof (JFun n) = ''function''"
| "typeof (JObj m) = ''object''"

text \<open>
  What a plain object (an object literal, a parsed JSON object, the result of
  \<^verbatim>\<open>Object.fromEntries\<close>) inherits: the methods of \<^verbatim>\<open>Object.prototype\<close>, each with
  its \<^verbatim>\<open>length\<close>, and \<^verbatim>\<open>__proto__\<close>, which reads as \<^verbatim>\<open>Object.prototype\<close> itself.
\<close>

definition objectPrototypeMethods :: "(string \<times> nat) list" where
  "objectPrototypeMethods =
     [(''constructor'', 1), (''hasOwnProperty'', 1), (''isPrototypeOf'', 1),
      (''propertyIsEnumerable'', 1), (''toLocaleString'', 0), (''toString'', 0),
      (''valueOf'', 0), (''__defineGetter__'', 2), (''__defineSetter__'', 2),
      (''__lookupGetter__'', 1), (''__lookupSetter__'', 1)]"

definition objectPrototype :: "string \<Rightarrow> jsval option" where
  "objectPrototype key =
     (if key = ''__proto__''
      then Some (JObj (\<lambda>f. if f = ''__proto__'' then Some JNull
                           else map_option JFun (map_of objectPrototypeMethods f)))
      else map_option JFun (map_of objectPrototypeMethods key))"

text \<open>
  \<^verbatim>\<open>v.f\<close>: reading a property of \<^verbatim>\<open>undefined\<close> or \<^verbatim>\<open>null\<close> throws a TypeError;
  an object yields its own property, else the inherited one, else \<^verbatim>\<open>undefined\<close>; of
  the properties of a primitive or a function only \<^verbatim>\<open>length\<close> is read by the views.
\<close>

fun member :: "jsval \<Rightarrow> string \<Rightarrow> error + jsval" where
  "member JUndefined f = Inl TypeError"
| "member JNull f = Inl TypeError"
| "member (JObj m) f =
     Inr (case m f of
            Some v \<Rightarrow> v
          | None \<Rightarrow> (case objectPrototype f of Some v \<Rightarrow> v | None \<Rightarrow> JUndefined))"
| "member (JStr s) f = Inr (if f = ''length'' then JNum (int (length s)) else JUndefined)"
| "member (JFun n) f = Inr (if f = ''length'' then JNum (int n) else JUndefined)"
| "member (JBool b) f = Inr JUndefined"
| "member (JNum n) f = Inr JUndefined"

text \<open>\<^verbatim>\<open>v?.f\<close>: \<^verbatim>\<open>undefined\<close> when \<open>v\<close> is nullish, \<^verbatim>\<open>v.f\<close> otherwise.\<close>

fun opt_member :: "jsval \<Rightarrow> string \<Rightarrow> error + jsval" where
  "opt_member JUndefined f = Inr JUndefined"
| "opt_member JNull f = Inr JUndefined"
| "opt_member v f = member v f"

text \<open>Truthiness (\<^verbatim>\<open>ToBoolean\<close>) of a value in a condition.\<close>

fun truthy :: "jsval \<Rightarrow> bool" where
  "truthy JUndefined = False"
| "truthy JNull = False"
| "truthy (JBool b) = b"
| "truthy (JNum n) = (n \<noteq> 0)"
| "truthy (JStr s) = (s \<noteq> [])"
| "truthy (JFun n) = True"
| "truthy (JObj m) = True"

text \<open>\<^verbatim>\<open>v ?? d\<close>.\<close>

fun nullish_or :: "jsval \<Rightarrow> jsval \<Rightarrow> jsval" where
  "nullish_or JUndefined d = d"
| "nullish_or JNull d = d"
| "nullish_or v d = v"

text \<open>
  \<^verbatim>\<open>record?.[key]\<close> on a \<^verbatim>\<open>Record<string, T>\<close> that may be null: the own property
  when the record has one, else the member inherited from \<^verbatim>\<open>Object.prototype\<close>, which
  is not a \<open>T\<close>, else \<^verbatim>\<open>undefined\<close>.
\<close>

datatype 'a property = Own 'a | Inherited jsval | Absent

definition record_get :: "(string \<Rightarrow> 'a option) option \<Rightarrow> string \<Rightarrow> 'a property" where
  "record_get r key =
     (case r of
        None \<Rightarrow> Absent
      | Some m \<Rightarrow>
          (case m key of
             Some v \<Rightarrow> Own v
           | None \<Rightarrow> (case objectPrototype key of Some v \<Rightarrow> Inherited v | None \<Rightarrow> Absent)))"

text \<open>Sequencing of computations that may throw.\<close>

definition bind_result :: "error + 'a \<Rightarrow> ('a \<Rightarrow> error + 'b) \<Rightarrow> error + 'b" where
  "bind_result r k = (case r of Inl e \<Rightarrow> Inl e | Inr v \<Rightarrow> k v)"

subsection \<open>Snapshot types\<close>

text \<open>
  Modelled from the spec: \<^verbatim>\<open>ChannelAccountSnapshot\<close>, \<^verbatim>\<open>ChannelUiMetaEntry\<close> and
  \<^verbatim>\<open>ChannelsStatusSnapshot\<close> are declared in \<^verbatim>\<open>ui/src/ui/types.ts\<close>, which is not
  among the sources. The fields below are the ones the views read, with the types the
  specification's data model gives them: \<open>connected\<close> of an account is a boolean or null,
  \<open>lastInboundAt\<close> a timestamp or null, \<open>channels\<close> a mapping from channel key to a
  status record whose fields may be missing or of any type.
\<close>

record ChannelAccountSnapshot =
  accountId :: string
  name :: "string option"
  configured :: bool
  running :: bool
  connected :: "bool option"
  lastInboundAt :: "int option"
  lastError :: "string option"

record ChannelUiMetaEntry =
  meta_id :: string
  meta_label :: "string option"

record ChannelsStatusSnapshot =
  channelMeta :: "ChannelUiMetaEntry list option"
  channelOrder :: "string list option"
  channelLabels :: "(string \<Rightarrow> string option) option"
  channels :: "(string \<Rightarrow> jsval option) option"
  channelAccounts :: "(string \<Rightarrow> ChannelAccountSnapshot list option) option"

text \<open>\<^verbatim>\<open>ChannelListItem\<close> and the fields of \<^verbatim>\<open>ChannelsProps\<close> the views read
  (\<^verbatim>\<open>channels.types.ts\<close>). A label is declared a string and holds what
  \<^verbatim>\<open>resolveChannelLabel\<close> returns, which a lookup may have inherited: it is a \<open>jsval\<close>.\<close>

record ChannelListItem =
  item_id :: string
  item_label :: jsval
  item_configured :: bool
  item_running :: bool
  item_connected :: bool
  item_accountCount :: int
  item_lastActivity :: "int option"
  item_hasError :: bool

record ChannelsProps =
  loading :: bool
  snapshot :: "ChannelsStatusSnapshot option"
  whatsappMessage :: "string option"
  whatsappQrDataUrl :: "string option"
  whatsappBusy :: bool
  activeChannelTab :: string

section \<open>Channel order and labels\<close>

text \<open>\<^verbatim>\<open>resolveChannelOrder\<close>: \<^verbatim>\<open>x?.length\<close> is truthy when the array is there and
  not empty.\<close>

definition defaultChannelOrder :: "string list" where
  "defaultChannelOrder =
     [''whatsapp'', ''telegram'', ''discord'', ''googlechat'', ''slack'', ''signal'',
      ''imessage'', ''nostr'']"

definition has_length :: "'a list option \<Rightarrow> bool" where
  "has_length xs = (case xs of None \<Rightarrow> False | Some l \<Rightarrow> length l \<noteq> 0)"

definition resolveChannelOrder :: "ChannelsStatusSnapshot option \<Rightarrow> string list" where
  "resolveChannelOrder s =
     (if has_length (Option.bind s channelMeta)
      then map meta_id (the (Option.bind s channelMeta))
      else if has_length (Option.bind s channelOrder)
      then the (Option.bind s channelOrder)
      else defaultChannelOrder)"

text \<open>\<^verbatim>\<open>resolveChannelMetaMap\<close>: \<^verbatim>\<open>Object.fromEntries\<close> keeps the last entry of an
  id that is listed twice.\<close>

definition resolveChannelMetaMap ::
    "ChannelsStatusSnapshot option \<Rightarrow> string \<Rightarrow> ChannelUiMetaEntry option" where
  "resolveChannelMetaMap s =
     (if \<not> has_length (Option.bind s channelMeta) then Map.empty
      else map_of (rev (map (\<lambda>entry. (meta_id entry, entry)) (the (Option.bind s channelMeta)))))"

text \<open>\<^verbatim>\<open>resolveChannelLabel\<close>:
  \<^verbatim>\<open>meta?.label ?? snapshot?.channelLabels?.[key] ?? key\<close>, where \<open>meta\<close> is looked up
  in the object \<^verbatim>\<open>resolveChannelMetaMap\<close> builds.\<close>

definition resolveChannelLabel ::
    "ChannelsStatusSnapshot option \<Rightarrow> string \<Rightarrow> error + jsval" where
  "resolveChannelLabel s key =
     bind_result
       (case record_get (Some (resolveChannelMetaMap s)) key of
          Own entry \<Rightarrow> Inr (case meta_label entry of None \<Rightarrow> JUndefined | Some l \<Rightarrow> JStr l)
        | Inherited v \<Rightarrow> opt_member v ''label''
        | Absent \<Rightarrow> Inr JUndefined)
       (\<lambda>metaLabel.
          Inr (nullish_or metaLabel
                 (nullish_or
                    (case record_get (Option.bind s channelLabels) key of
                       Own l \<Rightarrow> JStr l
                     | Inherited v \<Rightarrow> v
                     | Absent \<Rightarrow> JUndefined)
                    (JStr key))))"

text \<open>
  \<^verbatim>\<open>Array.prototype.toSorted(compare)\<close> is the engine's sort, stable by the language
  standard: an element moves before another only if the comparator puts it strictly
  before. It is modelled by the stable insertion sort.
\<close>

fun insertSorted :: "('a \<Rightarrow> 'a \<Rightarrow> int) \<Rightarrow> 'a \<Rightarrow> 'a list \<Rightarrow> 'a list" where
  "insertSorted compare x [] = [x]"
| "insertSorted compare x (y # ys) =
     (if compare x y \<le> 0 then x # y # ys else y # insertSorted compare x ys)"

definition toSorted :: "('a \<Rightarrow> 'a \<Rightarrow> int) \<Rightarrow> 'a list \<Rightarrow> 'a list" where
  "toSorted compare xs = foldr (insertSorted compare) xs []"

text \<open>
  The display order of \<^verbatim>\<open>renderChannels\<close>. \<^verbatim>\<open>channelEnabled\<close> comes from
  \<^verbatim>\<open>channels.shared.ts\<close> and is a parameter here: a predicate of the channel key and
  the props.
\<close>

record ordered_channel =
  oc_key :: string
  oc_enabled :: bool
  oc_order :: int

definition compareChannels :: "ordered_channel \<Rightarrow> ordered_channel \<Rightarrow> int" where
  "compareChannels a b =
     (if oc_enabled a \<noteq> oc_enabled b then (if oc_enabled a then - 1 else 1)
      else oc_order a - oc_order b)"

definition indexedChannels ::
    "(string \<Rightarrow> ChannelsProps \<Rightarrow> bool) \<Rightarrow> ChannelsProps \<Rightarrow> string list \<Rightarrow> ordered_channel list" where
  "indexedChannels channelEnabled props keys =
     map (\<lambda>(index, key).
            \<lparr>oc_key = key, oc_enabled = channelEnabled key props, oc_order = int index\<rparr>)
         (List.enumerate 0 keys)"

definition orderedChannels ::
    "(string \<Rightarrow> ChannelsProps \<Rightarrow> bool) \<Rightarrow> ChannelsProps \<Rightarrow> ordered_channel list" where
  "orderedChannels channelEnabled props =
     toSorted compareChannels
       (indexedChannels channelEnabled props (resolveChannelOrder (snapshot props)))"

section \<open>Activity classifier\<close>

definition RECENT_ACTIVITY_THRESHOLD_MS :: int where
  "RECENT_ACTIVITY_THRESHOLD_MS = 10 * 60 * 1000"

text \<open>\<^verbatim>\<open>!account.lastInboundAt\<close> holds for \<^verbatim>\<open>null\<close>, \<^verbatim>\<open>undefined\<close> and for the
  number \<open>0\<close>.\<close>

definition falsy_num :: "int option \<Rightarrow> bool" where
  "falsy_num t = (case t of None \<Rightarrow> True | Some n \<Rightarrow> n = 0)"

definition hasRecentActivity :: "int \<Rightarrow> ChannelAccountSnapshot \<Rightarrow> bool" where
  "hasRecentActivity now account =
     (if falsy_num (lastInboundAt account) then False
      else now - the (lastInboundAt account) < RECENT_ACTIVITY_THRESHOLD_MS)"

datatype liveness = Yes | No | Active | NA

definition deriveRunningStatus :: "int \<Rightarrow> ChannelAccountSnapshot \<Rightarrow> liveness" where
  "deriveRunningStatus now account =
     (if running account then Yes
      else if hasRecentActivity now account then Active
      else No)"

definition deriveConnectedStatus :: "int \<Rightarrow> ChannelAccountSnapshot \<Rightarrow> liveness" where
  "deriveConnectedStatus now account =
     (if connected account = Some True then Yes
      else if connected account = Some False then No
      else if hasRecentActivity now account then Active
      else NA)"

section \<open>Channel summarizer\<close>

text \<open>\<^verbatim>\<open>props.snapshot?.channels?.[key]\<close>, cast to a record of unknown values.\<close>

definition channelStatus :: "ChannelsProps \<Rightarrow> string \<Rightarrow> jsval" where
  "channelStatus props key =
     (case record_get (Option.bind (snapshot props) channels) key of
        Own v \<Rightarrow> v
      | Inherited v \<Rightarrow> v
      | Absent \<Rightarrow> JUndefined)"

text \<open>
  \<^verbatim>\<open>channelAccounts?.[key] ?? []\<close>: the array of the channel, the empty array when the
  lookup is nullish, and otherwise whatever the lookup inherited, which is not an array.
\<close>

datatype accounts_value = AccountsArray "ChannelAccountSnapshot list" | NotArray jsval

definition accountsOf ::
    "(string \<Rightarrow> ChannelAccountSnapshot list option) option \<Rightarrow> string \<Rightarrow> accounts_value" where
  "accountsOf accountsMap key =
     (case record_get accountsMap key of
        Own accounts \<Rightarrow> AccountsArray accounts
      | Inherited v \<Rightarrow> (if v = JUndefined \<or> v = JNull then AccountsArray [] else NotArray v)
      | Absent \<Rightarrow> AccountsArray [])"

text \<open>
  Modelled from the spec: \<^verbatim>\<open>getChannelAccountCount\<close> is imported from
  \<^verbatim>\<open>channels.shared.ts\<close>, which is not among the sources. The specification's data
  model fixes its result: \<open>accountCount == len(channelAccounts[id])\<close>, the number of
  accounts the snapshot lists for the channel, and a channel with no accounts has
  \<open>accountCount = 0\<close>.
\<close>

definition getChannelAccountCount ::
    "string \<Rightarrow> (string \<Rightarrow> ChannelAccountSnapshot list option) option \<Rightarrow> int" where
  "getChannelAccountCount key accountsMap =
     (case Option.bind accountsMap (\<lambda>m. m key) of
        None \<Rightarrow> 0
      | Some accounts \<Rightarrow> int (length accounts))"

text \<open>A value read at the type its \<^verbatim>\<open>typeof\<close> guard has established.\<close>

fun as_boolean :: "jsval \<Rightarrow> bool" where
  "as_boolean (JBool b) = b"
| "as_boolean v = False"

fun as_string :: "jsval \<Rightarrow> string" where
  "as_string (JStr s) = s"
| "as_string v = []"

fun as_number :: "jsval \<Rightarrow> int" where
  "as_number (JNum n) = n"
| "as_number v = 0"

text \<open>\<^verbatim>\<open>typeof status?.f === "boolean" ? status.f : false\<close>.\<close>

definition boolean_or_false :: "jsval \<Rightarrow> string \<Rightarrow> error + bool" where
  "boolean_or_false status f =
     bind_result (opt_member status f) (\<lambda>v.
       if typeof v = ''boolean''
       then bind_result (member status f) (\<lambda>w. Inr (as_boolean w))
       else Inr False)"

text \<open>\<^verbatim>\<open>typeof status?.lastError === "string" && status.lastError.length > 0\<close>.\<close>

definition nonempty_string :: "jsval \<Rightarrow> string \<Rightarrow> error + bool" where
  "nonempty_string status f =
     bind_result (opt_member status f) (\<lambda>v.
       if typeof v = ''string''
       then bind_result (member status f) (\<lambda>w.
              bind_result (member w ''length'') (\<lambda>n. Inr (as_number n > 0)))
       else Inr False)"

text \<open>The loop over the accounts; \<open>lastActivity\<close> is the variable it updates.
  \<^verbatim>\<open>account.lastInboundAt && ...\<close> skips a timestamp that is null or \<open>0\<close>.\<close>

fun lastActivityLoop :: "int option \<Rightarrow> ChannelAccountSnapshot list \<Rightarrow> int option" where
  "lastActivityLoop lastActivity [] = lastActivity"
| "lastActivityLoop lastActivity (account # accounts) =
     lastActivityLoop
       (if \<not> falsy_num (lastInboundAt account) \<and>
           (lastActivity = None \<or> the (lastInboundAt account) > the lastActivity)
        then lastInboundAt account
        else lastActivity)
       accounts"

text \<open>
  \<^verbatim>\<open>for (const account of accounts)\<close>: an array is iterated; a string is iterable too,
  and none of its characters has a \<^verbatim>\<open>lastInboundAt\<close>; any other value is not
  iterable, and the statement throws a TypeError.
\<close>

definition lastActivityOf :: "accounts_value \<Rightarrow> error + int option" where
  "lastActivityOf accounts =
     (case accounts of
        AccountsArray xs \<Rightarrow> Inr (lastActivityLoop None xs)
      | NotArray v \<Rightarrow> (case v of JStr s \<Rightarrow> Inr None | _ \<Rightarrow> Inl TypeError))"

text \<open>The callback of \<^verbatim>\<open>orderedKeys.map\<close> in \<^verbatim>\<open>buildChannelListItems\<close>.\<close>

definition buildChannelListItem :: "ChannelsProps \<Rightarrow> string \<Rightarrow> error + ChannelListItem" where
  "buildChannelListItem props key =
     bind_result (resolveChannelLabel (snapshot props) key) (\<lambda>label.
       let status = channelStatus props key
       in bind_result (boolean_or_false status ''configured'') (\<lambda>configured.
          bind_result (boolean_or_false status ''running'') (\<lambda>running.
          bind_result (boolean_or_false status ''connected'') (\<lambda>connected.
          bind_result (nonempty_string status ''lastError'') (\<lambda>hasError.
            let accounts = accountsOf (Option.bind (snapshot props) channelAccounts) key;
                accountCount =
                  getChannelAccountCount key (Option.bind (snapshot props) channelAccounts)
            in bind_result (lastActivityOf accounts) (\<lambda>lastActivity.
                 Inr \<lparr>item_id = key, item_label = label, item_configured = configured,
                      item_running = running, item_connected = connected,
                      item_accountCount = accountCount, item_lastActivity = lastActivity,
                      item_hasError = hasError\<rparr>))))))"

text \<open>\<^verbatim>\<open>Array.prototype.map\<close> with a callback that may throw: the first throw ends it.\<close>

fun map_result :: "('a \<Rightarrow> error + 'b) \<Rightarrow> 'a list \<Rightarrow> error + 'b list" where
  "map_result f [] = Inr []"
| "map_result f (x # xs) =
     bind_result (f x) (\<lambda>y. bind_result (map_result f xs) (\<lambda>ys. Inr (y # ys)))"

definition buildChannelListItems ::
    "ChannelsProps \<Rightarrow> string list \<Rightarrow> error + ChannelListItem list" where
  "buildChannelListItems props orderedKeys = map_result (buildChannelListItem props) orderedKeys"

text \<open>The \<open>listItems\<close> of \<^verbatim>\<open>renderChannels\<close>.\<close>

definition listItems ::
    "(string \<Rightarrow> ChannelsProps \<Rightarrow> bool) \<Rightarrow> ChannelsProps \<Rightarrow> error + ChannelListItem list" where
  "listItems channelEnabled props =
     buildChannelListItems props (map oc_key (orderedChannels channelEnabled props))"


section \<open>Tab bar\<close>

record ChannelTabDef =
  tab_id :: string
  tab_label :: string
  tab_disabled :: "bool option"
  tab_hidden :: "bool option"

text \<open>\<^verbatim>\<open>CHANNEL_TAB_IDS\<close>.\<close>

definition STATUS :: string where "STATUS = ''status''"
definition ACCOUNTS :: string where "ACCOUNTS = ''accounts''"
definition CONFIG :: string where "CONFIG = ''config''"
definition ACTIONS :: string where "ACTIONS = ''actions''"

text \<open>One button of the rendered tab bar: its label, the tab id its click hands to
  \<^verbatim>\<open>onTabChange\<close>, and its active and disabled flags.\<close>

record tab_button =
  tb_id :: string
  tb_label :: string
  tb_active :: bool
  tb_disabled :: bool

text \<open>\<^verbatim>\<open>!tab.hidden\<close> holds unless \<open>hidden\<close> is \<open>true\<close>.\<close>

definition visibleTabs :: "ChannelTabDef list \<Rightarrow> ChannelTabDef list" where
  "visibleTabs tabs = filter (\<lambda>tab. \<not> (tab_hidden tab = Some True)) tabs"

definition renderChannelTabs :: "ChannelTabDef list \<Rightarrow> string \<Rightarrow> tab_button list" where
  "renderChannelTabs tabs activeTab =
     map (\<lambda>tab.
            \<lparr>tb_id = tab_id tab, tb_label = tab_label tab,
             tb_active = (tab_id tab = activeTab),
             tb_disabled = (tab_disabled tab = Some True)\<rparr>)
         (visibleTabs tabs)"

record tab_options =
  hideAccounts :: "bool option"
  hideActions :: "bool option"

definition createDefaultChannelTabs :: "tab_options option \<Rightarrow> ChannelTabDef list" where
  "createDefaultChannelTabs options =
     [\<lparr>tab_id = STATUS, tab_label = ''Status'', tab_disabled = None, tab_hidden = None\<rparr>,
      \<lparr>tab_id = ACCOUNTS, tab_label = ''Accounts'', tab_disabled = None,
       tab_hidden = Option.bind options hideAccounts\<rparr>,
      \<lparr>tab_id = CONFIG, tab_label = ''Config'', tab_disabled = None, tab_hidden = None\<rparr>,
      \<lparr>tab_id = ACTIONS, tab_label = ''Actions'', tab_disabled = None,
       tab_hidden = Option.bind options hideActions\<rparr>]"

section \<open>Rendered content\<close>

text \<open>
  What a template shows. \<^verbatim>\<open>formatAgo\<close> (\<^verbatim>\<open>format.ts\<close>), the eight per-protocol
  status renderers' markup and \<^verbatim>\<open>renderChannelConfigSection\<close> (\<^verbatim>\<open>channels.config\<close>)
  are not unfolded: \<open>FormatAgo t\<close>, \<open>KindStatus kind status\<close> and \<open>ConfigSection id\<close>
  record the call and its argument.
\<close>

datatype cell = Text string | FormatAgo int

datatype action = OnWhatsAppStart bool | OnWhatsAppLogout | OnRefresh bool

text \<open>A \<^verbatim>\<open><button>\<close>: \<open>btn_disabled\<close> is its \<^verbatim>\<open>?disabled\<close> binding, false when the
  template has none.\<close>

record button =
  btn_class :: string
  btn_disabled :: bool
  btn_click :: action
  btn_text :: string

record account_card =
  card_title :: string
  card_id :: string
  card_running :: liveness
  card_configured :: string
  card_connected :: liveness
  card_lastInbound :: cell
  card_error :: "string option"

datatype content =
    StatusList "(string \<times> cell) list" "string option"
  | KindStatus string jsval
  | AccountCardList "account_card list"
  | Placeholder string
  | ActionButtons "button list" "string option" "string option"
  | ConfigSection string
  | Nothing

record ChannelsChannelData =
  whatsapp :: jsval
  telegram :: jsval
  discord :: jsval
  googlechat :: jsval
  slack :: jsval
  signal :: jsval
  imessage :: jsval
  nostr :: jsval
  data_channelAccounts :: "(string \<Rightarrow> ChannelAccountSnapshot list option) option"

section \<open>Status content\<close>

text \<open>\<^verbatim>\<open>typeof status?.f === "boolean" ? status.f : undefined\<close>.\<close>

definition boolean_or_undefined :: "jsval \<Rightarrow> string \<Rightarrow> error + bool option" where
  "boolean_or_undefined status f =
     bind_result (opt_member status f) (\<lambda>v.
       if typeof v = ''boolean''
       then bind_result (member status f) (\<lambda>w. Inr (Some (as_boolean w)))
       else Inr None)"

text \<open>\<^verbatim>\<open>typeof status?.f === "string" ? status.f : undefined\<close>.\<close>

definition string_or_undefined :: "jsval \<Rightarrow> string \<Rightarrow> error + string option" where
  "string_or_undefined status f =
     bind_result (opt_member status f) (\<lambda>v.
       if typeof v = ''string''
       then bind_result (member status f) (\<lambda>w. Inr (Some (as_string w)))
       else Inr None)"

text \<open>\<^verbatim>\<open>x == null ? "n/a" : x ? "Yes" : "No"\<close>.\<close>

definition yes_no_na :: "bool option \<Rightarrow> string" where
  "yes_no_na x = (if x = None then ''n/a'' else if the x then ''Yes'' else ''No'')"

text \<open>\<^verbatim>\<open>t ? formatAgo(t) : "n/a"\<close>.\<close>

definition ago_or_na :: "int option \<Rightarrow> cell" where
  "ago_or_na t = (if falsy_num t then Text ''n/a'' else FormatAgo (the t))"

text \<open>A string that is shown only when it is truthy: there and not empty.\<close>

definition truthy_string :: "string option \<Rightarrow> string option" where
  "truthy_string s = (case s of None \<Rightarrow> None | Some t \<Rightarrow> if t = [] then None else Some t)"

text \<open>\<^verbatim>\<open>accounts[0]?.lastInboundAt ?? null\<close>: the timestamp of the first account;
  a value that is not an array has no element \<open>0\<close> with a \<^verbatim>\<open>lastInboundAt\<close>.\<close>

definition firstInbound :: "accounts_value \<Rightarrow> int option" where
  "firstInbound accounts =
     (case accounts of
        AccountsArray [] \<Rightarrow> None
      | AccountsArray (account # rest) \<Rightarrow> lastInboundAt account
      | NotArray v \<Rightarrow> None)"

definition renderGenericStatus ::
    "string \<Rightarrow> ChannelsProps \<Rightarrow> ChannelsChannelData \<Rightarrow> error + content" where
  "renderGenericStatus channelId props data =
     (let status = channelStatus props channelId
      in bind_result (boolean_or_undefined status ''configured'') (\<lambda>configured.
         bind_result (boolean_or_undefined status ''running'') (\<lambda>running.
         bind_result (boolean_or_undefined status ''connected'') (\<lambda>connected.
         bind_result (string_or_undefined status ''lastError'') (\<lambda>lastError.
           let accounts = accountsOf (data_channelAccounts data) channelId;
               lastInbound = firstInbound accounts
           in Inr (StatusList
                    [(''Configured'', Text (yes_no_na configured)),
                     (''Running'', Text (yes_no_na running)),
                     (''Connected'', Text (yes_no_na connected)),
                     (''Last message'', ago_or_na lastInbound)]
                    (truthy_string lastError)))))))"

definition renderChannelStatus ::
    "string \<Rightarrow> ChannelsProps \<Rightarrow> ChannelsChannelData \<Rightarrow> error + content" where
  "renderChannelStatus channelId props data =
     (if channelId = ''whatsapp'' then Inr (KindStatus ''whatsapp'' (whatsapp data))
      else if channelId = ''telegram'' then Inr (KindStatus ''telegram'' (telegram data))
      else if channelId = ''discord'' then Inr (KindStatus ''discord'' (discord data))
      else if channelId = ''slack'' then Inr (KindStatus ''slack'' (slack data))
      else if channelId = ''signal'' then Inr (KindStatus ''signal'' (signal data))
      else if channelId = ''imessage'' then Inr (KindStatus ''imessage'' (imessage data))
      else if channelId = ''googlechat'' then Inr (KindStatus ''googlechat'' (googlechat data))
      else if channelId = ''nostr'' then Inr (KindStatus ''nostr'' (nostr data))
      else renderGenericStatus channelId props data)"

section \<open>Accounts content\<close>

definition renderGenericAccount :: "int \<Rightarrow> ChannelAccountSnapshot \<Rightarrow> account_card" where
  "renderGenericAccount now account =
     (let runningStatus = deriveRunningStatus now account;
          connectedStatus = deriveConnectedStatus now account
      in \<lparr>card_title =
             (case truthy_string (name account) of None \<Rightarrow> accountId account | Some n \<Rightarrow> n),
           card_id = accountId account,
           card_running = runningStatus,
           card_configured = (if configured account then ''Yes'' else ''No''),
           card_connected = connectedStatus,
           card_lastInbound = ago_or_na (lastInboundAt account),
           card_error = truthy_string (lastError account)\<rparr>)"

text \<open>
  \<^verbatim>\<open>renderChannelAccounts\<close>: \<^verbatim>\<open>accounts.length === 0\<close> shows the placeholder;
  otherwise \<^verbatim>\<open>accounts.map(...)\<close> is called, which only an array has: on any other
  value the call throws a TypeError.
\<close>

definition renderChannelAccounts ::
    "int \<Rightarrow> string \<Rightarrow> ChannelsChannelData \<Rightarrow> error + content" where
  "renderChannelAccounts now channelId data =
     (case accountsOf (data_channelAccounts data) channelId of
        AccountsArray accounts \<Rightarrow>
          if length accounts = 0 then Inr (Placeholder ''No accounts configured.'')
          else Inr (AccountCardList (map (renderGenericAccount now) accounts))
      | NotArray v \<Rightarrow>
          bind_result (member v ''length'') (\<lambda>n.
            if n = JNum 0 then Inr (Placeholder ''No accounts configured.'')
            else Inl TypeError))"

section \<open>Actions content\<close>

definition renderWhatsAppActions :: "ChannelsProps \<Rightarrow> jsval \<Rightarrow> error + content" where
  "renderWhatsAppActions props wa =
     (let showQr = (whatsappQrDataUrl props \<noteq> None)
      in bind_result (opt_member wa ''linked'') (\<lambda>linked.
           Inr (ActionButtons
                  (\<lparr>btn_class = ''btn'', btn_disabled = whatsappBusy props,
                    btn_click = OnWhatsAppStart False,
                    btn_text = (if showQr then ''Refresh QR'' else ''Show QR Code'')\<rparr>
                   # (if truthy linked
                      then [\<lparr>btn_class = ''btn btn-danger'', btn_disabled = whatsappBusy props,
                              btn_click = OnWhatsAppLogout, btn_text = ''Logout''\<rparr>]
                      else []))
                  (if showQr then whatsappQrDataUrl props else None)
                  (truthy_string (whatsappMessage props)))))"

definition renderProbeActions :: "ChannelsProps \<Rightarrow> content" where
  "renderProbeActions props =
     ActionButtons
       [\<lparr>btn_class = ''btn'', btn_disabled = False, btn_click = OnRefresh True,
         btn_text = ''Probe Connection''\<rparr>]
       None None"

definition renderChannelActions ::
    "string \<Rightarrow> ChannelsProps \<Rightarrow> ChannelsChannelData \<Rightarrow> error + content" where
  "renderChannelActions channelId props data =
     (if channelId = ''whatsapp'' then renderWhatsAppActions props (whatsapp data)
      else if channelId = ''telegram'' \<or> channelId = ''discord'' \<or> channelId = ''slack'' \<or>
              channelId = ''signal'' \<or> channelId = ''googlechat''
      then Inr (renderProbeActions props)
      else Inr (Placeholder ''No actions available for this channel.''))"

section \<open>Detail composer\<close>

record hide_tabs =
  hide_accounts :: "bool option"
  hide_actions :: "bool option"

text \<open>
  The props of \<^verbatim>\<open>renderChannelDetail\<close>. A slot renderer is a thunk the composer calls
  at most once; the views are pure, so the slot holds what the call returns or throws,
  and \<open>None\<close> when the slot is not given. The two callbacks are not data and are left out.
\<close>

record ChannelDetailProps =
  channelId :: string
  channelLabel :: jsval
  activeTab :: string
  channelsProps :: ChannelsProps
  channelData :: ChannelsChannelData
  hideTabs :: "hide_tabs option"
  renderStatusContent :: "(error + content) option"
  renderAccountsContent :: "(error + content) option"
  renderActionsContent :: "(error + content) option"

definition renderDefaultStatus :: content where
  "renderDefaultStatus = Placeholder ''No status information available.''"

definition renderDefaultAccounts :: content where
  "renderDefaultAccounts = Placeholder ''No accounts configured.''"

definition renderDefaultActions :: content where
  "renderDefaultActions = Placeholder ''No actions available for this channel.''"

definition renderTabContent ::
    "string \<Rightarrow> string \<Rightarrow> (error + content) option \<Rightarrow> (error + content) option \<Rightarrow>
     (error + content) option \<Rightarrow> error + content" where
  "renderTabContent cid tab statusSlot accountsSlot actionsSlot =
     (if tab = ''status''
      then (case statusSlot of Some r \<Rightarrow> r | None \<Rightarrow> Inr renderDefaultStatus)
      else if tab = ''accounts''
      then (case accountsSlot of Some r \<Rightarrow> r | None \<Rightarrow> Inr renderDefaultAccounts)
      else if tab = ''config'' then Inr (ConfigSection cid)
      else if tab = ''actions''
      then (case actionsSlot of Some r \<Rightarrow> r | None \<Rightarrow> Inr renderDefaultActions)
      else Inr Nothing)"

text \<open>The expanded card: its title, the buttons of its tab bar and its content area.\<close>

record detail_view =
  dv_title :: jsval
  dv_tabs :: "tab_button list"
  dv_content :: content

definition renderChannelDetail :: "ChannelDetailProps \<Rightarrow> error + detail_view" where
  "renderChannelDetail p =
     (let tabs = createDefaultChannelTabs
                   (Some \<lparr>hideAccounts = Option.bind (hideTabs p) hide_accounts,
                          hideActions = Option.bind (hideTabs p) hide_actions\<rparr>)
      in bind_result
           (renderTabContent (channelId p) (activeTab p) (renderStatusContent p)
              (renderAccountsContent p) (renderActionsContent p))
           (\<lambda>shown.
              Inr \<lparr>dv_title = channelLabel p,
                   dv_tabs = renderChannelTabs tabs (activeTab p),
                   dv_content = shown\<rparr>))"

text \<open>The \<open>data\<close> of \<^verbatim>\<open>renderExpandedChannel\<close>: \<^verbatim>\<open>channels?.whatsapp ?? undefined\<close>
  and its siblings.\<close>

definition channelDataOf :: "ChannelsProps \<Rightarrow> ChannelsChannelData" where
  "channelDataOf props =
     \<lparr>whatsapp = nullish_or (channelStatus props ''whatsapp'') JUndefined,
      telegram = nullish_or (channelStatus props ''telegram'') JUndefined,
      discord = nullish_or (channelStatus props ''discord'') JNull,
      googlechat = nullish_or (channelStatus props ''googlechat'') JNull,
      slack = nullish_or (channelStatus props ''slack'') JNull,
      signal = nullish_or (channelStatus props ''signal'') JNull,
      imessage = nullish_or (channelStatus props ''imessage'') JNull,
      nostr = nullish_or (channelStatus props ''nostr'') JNull,
      data_channelAccounts = Option.bind (snapshot props) channelAccounts\<rparr>"

definition renderExpandedChannel :: "int \<Rightarrow> string \<Rightarrow> ChannelsProps \<Rightarrow> error + detail_view" where
  "renderExpandedChannel now cid props =
     (let data = channelDataOf props
      in bind_result (resolveChannelLabel (snapshot props) cid) (\<lambda>label.
           let accountCount =
                 getChannelAccountCount cid (Option.bind (snapshot props) channelAccounts)
           in renderChannelDetail
                \<lparr>channelId = cid, channelLabel = label, activeTab = activeChannelTab props,
                 channelsProps = props, channelData = data,
                 hideTabs = Some \<lparr>hide_accounts = Some (accountCount < 2), hide_actions = None\<rparr>,
                 renderStatusContent = Some (renderChannelStatus cid props data),
                 renderAccountsContent = Some (renderChannelAccounts now cid data),
                 renderActionsContent = Some (renderChannelActions cid props data)\<rparr>))"


section \<open>Vocabulary of the statements\<close>

text \<open>
  The value of field \<open>f\<close> of a status record as the views read it, \<^verbatim>\<open>status?.f\<close>:
  \<^verbatim>\<open>undefined\<close> when the record is missing or has no such property. The field is a
  boolean when it is \<open>JBool b\<close>, and absent or wrongly typed otherwise.
\<close>

definition field_value :: "jsval \<Rightarrow> string \<Rightarrow> jsval" where
  "field_value status f = (case opt_member status f of Inl e \<Rightarrow> JUndefined | Inr v \<Rightarrow> v)"

text \<open>
  The lookup \<^verbatim>\<open>channelAccounts[key]\<close> can find a member of \<^verbatim>\<open>Object.prototype\<close>
  instead of an array of accounts: \<open>inheritsAccounts\<close> says that it does, for a key such
  as \<^verbatim>\<open>constructor\<close> that \<open>channelAccounts\<close> does not own. \<open>ownAccounts\<close> is the
  array the snapshot lists for a channel, empty when it lists none.
\<close>

definition inheritsAccounts :: "ChannelsProps \<Rightarrow> string \<Rightarrow> bool" where
  "inheritsAccounts props key =
     (case record_get (Option.bind (snapshot props) channelAccounts) key of
        Inherited v \<Rightarrow> True
      | _ \<Rightarrow> False)"

definition ownAccounts :: "ChannelsProps \<Rightarrow> string \<Rightarrow> ChannelAccountSnapshot list" where
  "ownAccounts props key =
     (case Option.bind (Option.bind (snapshot props) channelAccounts) (\<lambda>m. m key) of
        None \<Rightarrow> []
      | Some accounts \<Rightarrow> accounts)"

text \<open>Inputs the examples are built from: an account with nothing set, a snapshot with
  no field, props around it, props whose snapshot knows one channel, and the props of a
  detail card whose actions tab is hidden while it is the active one.\<close>

definition exampleAccount :: ChannelAccountSnapshot where
  "exampleAccount =
     \<lparr>accountId = ''default'', name = None, configured = True, running = False,
      connected = None, lastInboundAt = None, lastError = None\<rparr>"

definition emptySnapshot :: ChannelsStatusSnapshot where
  "emptySnapshot =
     \<lparr>channelMeta = None, channelOrder = None, channelLabels = None, channels = None,
      channelAccounts = None\<rparr>"

definition exampleProps :: ChannelsProps where
  "exampleProps =
     \<lparr>loading = False, snapshot = Some emptySnapshot, whatsappMessage = None,
      whatsappQrDataUrl = None, whatsappBusy = False, activeChannelTab = ''status''\<rparr>"

definition channelProps :: "string \<Rightarrow> jsval \<Rightarrow> ChannelAccountSnapshot list \<Rightarrow> ChannelsProps" where
  "channelProps key status accounts =
     exampleProps
       \<lparr>snapshot := Some (emptySnapshot
          \<lparr>channels := Some [key \<mapsto> status],
           channelAccounts := Some [key \<mapsto> accounts]\<rparr>)\<rparr>"

definition exampleDetailProps :: ChannelDetailProps where
  "exampleDetailProps =
     \<lparr>channelId = ''slack'', channelLabel = JStr ''Slack'', activeTab = ''actions'',
      channelsProps = exampleProps, channelData = channelDataOf exampleProps,
      hideTabs = Some \<lparr>hide_accounts = None, hide_actions = Some True\<rparr>,
      renderStatusContent = None,
      renderAccountsContent = None,
      renderActionsContent = Some (Inr (renderProbeActions exampleProps))\<rparr>"

text \<open>Names used by the proofs: the timestamps the loop keeps, one step of the loop, the
  entry \<^verbatim>\<open>channelOrder.map\<close> builds from an index and a key, the item the callback of
  \<^verbatim>\<open>buildChannelListItems\<close> returns when it returns one, the tab bar of a detail card
  and one of its buttons.\<close>

definition inboundStamps :: "ChannelAccountSnapshot list \<Rightarrow> int list" where
  "inboundStamps accounts =
     concat (map (\<lambda>a. case lastInboundAt a of None \<Rightarrow> [] | Some t \<Rightarrow> if t = 0 then [] else [t])
       accounts)"

definition later :: "int option \<Rightarrow> int \<Rightarrow> int option" where
  "later la t = (if la = None \<or> t > the la then Some t else la)"

definition entryOf :: "(string \<Rightarrow> ChannelsProps \<Rightarrow> bool) \<Rightarrow> ChannelsProps \<Rightarrow> nat \<times> string \<Rightarrow> ordered_channel" where
  "entryOf channelEnabled props p =
     \<lparr>oc_key = snd p, oc_enabled = channelEnabled (snd p) props, oc_order = int (fst p)\<rparr>"

definition summaryOf :: "ChannelsProps \<Rightarrow> string \<Rightarrow> ChannelListItem" where
  "summaryOf props key =
     \<lparr>item_id = key,
      item_label = projr (resolveChannelLabel (snapshot props) key),
      item_configured = (field_value (channelStatus props key) ''configured'' = JBool True),
      item_running = (field_value (channelStatus props key) ''running'' = JBool True),
      item_connected = (field_value (channelStatus props key) ''connected'' = JBool True),
      item_accountCount =
        getChannelAccountCount key (Option.bind (snapshot props) channelAccounts),
      item_lastActivity = lastActivityLoop None (ownAccounts props key),
      item_hasError =
        (case field_value (channelStatus props key) ''lastError'' of
           JStr t \<Rightarrow> t \<noteq> [] | _ \<Rightarrow> False)\<rparr>"

definition tabBarOf :: "bool option \<Rightarrow> bool option \<Rightarrow> string \<Rightarrow> tab_button list" where
  "tabBarOf ha hx tab =
     renderChannelTabs
       (createDefaultChannelTabs (Some \<lparr>hideAccounts = ha, hideActions = hx\<rparr>)) tab"

definition tabButton :: "string \<Rightarrow> string \<Rightarrow> string \<Rightarrow> tab_button" where
  "tabButton tab i l = \<lparr>tb_id = i, tb_label = l, tb_active = (i = tab), tb_disabled = False\<rparr>"

section \<open>Reading a status record never throws\<close>

lemma opt_member_Inr: "\<exists>v. opt_member s f = Inr v"
  by (cases s) auto

lemma opt_member_field: "opt_member s f = Inr (field_value s f)"
  using opt_member_Inr [of s f] by (auto simp: field_value_def)

lemma member_of_typed:
  "typeof (field_value s f) = ''boolean'' \<or> typeof (field_value s f) = ''string''
    \<Longrightarrow> member s f = Inr (field_value s f)"
  by (cases s) (auto simp: field_value_def)

lemma boolean_or_false_eq:
  "boolean_or_false s f = Inr (field_value s f = JBool True)"
  unfolding boolean_or_false_def
  by (cases "field_value s f") (auto simp: opt_member_field member_of_typed bind_result_def)

lemma boolean_or_undefined_eq:
  "boolean_or_undefined s f =
     Inr (case field_value s f of JBool b \<Rightarrow> Some b | _ \<Rightarrow> None)"
  unfolding boolean_or_undefined_def
  by (cases "field_value s f") (auto simp: opt_member_field member_of_typed bind_result_def)

lemma nonempty_string_eq:
  "nonempty_string s f =
     Inr (case field_value s f of JStr t \<Rightarrow> t \<noteq> [] | _ \<Rightarrow> False)"
  unfolding nonempty_string_def
  by (cases "field_value s f") (auto simp: opt_member_field member_of_typed bind_result_def)

lemma string_or_undefined_eq:
  "string_or_undefined s f =
     Inr (case field_value s f of JStr t \<Rightarrow> Some t | _ \<Rightarrow> None)"
  unfolding string_or_undefined_def
  by (cases "field_value s f") (auto simp: opt_member_field member_of_typed bind_result_def)

section \<open>Labels and account lookups\<close>

lemma resolveChannelLabel_total: "\<exists>l. resolveChannelLabel s key = Inr l"
proof -
  obtain ml where "(case record_get (Some (resolveChannelMetaMap s)) key of
          Own entry \<Rightarrow> Inr (case meta_label entry of None \<Rightarrow> JUndefined | Some l \<Rightarrow> JStr l)
        | Inherited v \<Rightarrow> opt_member v ''label''
        | Absent \<Rightarrow> Inr JUndefined) = (Inr ml :: error + jsval)"
    using opt_member_Inr by (cases "record_get (Some (resolveChannelMetaMap s)) key") auto
  then show ?thesis
    unfolding resolveChannelLabel_def by (simp add: bind_result_def)
qed

lemma resolveChannelLabel_projr:
  "resolveChannelLabel s key = Inr (projr (resolveChannelLabel s key))"
  using resolveChannelLabel_total [of s key] by auto

lemma record_get_own:
  "(case record_get r key of Inherited v \<Rightarrow> False | _ \<Rightarrow> True) \<Longrightarrow>
     (case record_get r key of Own xs \<Rightarrow> AccountsArray xs
      | Inherited v \<Rightarrow> (if v = JUndefined \<or> v = JNull then AccountsArray [] else NotArray v)
      | Absent \<Rightarrow> AccountsArray []) =
     AccountsArray (case Option.bind r (\<lambda>m. m key) of None \<Rightarrow> [] | Some accounts \<Rightarrow> accounts)"
proof (cases r)
  case None
  then show ?thesis by (simp add: record_get_def)
next
  case (Some m)
  assume own: "case record_get r key of Inherited v \<Rightarrow> False | _ \<Rightarrow> True"
  show ?thesis
  proof (cases "m key")
    case None
    with Some own show ?thesis
      by (cases "objectPrototype key") (simp_all add: record_get_def)
  next
    case (Some xs)
    with \<open>r = Some m\<close> show ?thesis by (simp add: record_get_def)
  qed
qed

lemma accountsOf_own:
  "\<not> inheritsAccounts props key \<Longrightarrow>
     accountsOf (Option.bind (snapshot props) channelAccounts) key =
       AccountsArray (ownAccounts props key)"
  unfolding inheritsAccounts_def accountsOf_def ownAccounts_def
  using record_get_own [of "Option.bind (snapshot props) channelAccounts" key]
  by (cases "record_get (Option.bind (snapshot props) channelAccounts) key") simp_all

lemma getChannelAccountCount_own:
  "getChannelAccountCount key (Option.bind (snapshot props) channelAccounts) =
     int (length (ownAccounts props key))"
  by (simp add: getChannelAccountCount_def ownAccounts_def split: option.splits)

section \<open>The loop over the accounts\<close>

lemma lastActivityLoop_foldl:
  "lastActivityLoop la accounts = foldl later la (inboundStamps accounts)"
proof (induction accounts arbitrary: la)
  case Nil
  show ?case by (simp add: inboundStamps_def)
next
  case (Cons a accounts)
  show ?case
  proof (cases "lastInboundAt a")
    case None
    then show ?thesis using Cons.IH [of la] by (simp add: inboundStamps_def falsy_num_def)
  next
    case (Some t)
    then show ?thesis
      using Cons.IH [of la] Cons.IH [of "Some t"]
      by (simp add: inboundStamps_def falsy_num_def later_def)
  qed
qed

lemma Max_insert_max:
  "finite S \<Longrightarrow> Max (insert (max l t) S) = Max (insert l (insert t S))" for l :: int
  by (cases "S = {}") (simp_all add: max.assoc)

lemma later_Some: "later (Some l) t = Some (max l t)"
  by (simp add: later_def max_def)

lemma foldl_later_Some: "foldl later (Some l) ts = Some (Max (insert l (set ts)))"
proof (induction ts arbitrary: l)
  case Nil
  show ?case by simp
next
  case (Cons t ts)
  have "foldl later (Some l) (t # ts) = foldl later (Some (max l t)) ts"
    by (simp add: later_Some)
  also have "\<dots> = Some (Max (insert (max l t) (set ts)))"
    by (rule Cons.IH)
  also have "\<dots> = Some (Max (insert l (set (t # ts))))"
    by (simp add: Max_insert_max)
  finally show ?case .
qed

lemma foldl_later_None:
  "foldl later None ts = (if ts = [] then None else Some (Max (set ts)))"
  by (cases ts) (simp_all add: later_def foldl_later_Some)

lemma set_inboundStamps:
  "set (inboundStamps accounts) = {t. t \<noteq> 0 \<and> (\<exists>a \<in> set accounts. lastInboundAt a = Some t)}"
  by (induction accounts) (auto simp: inboundStamps_def split: option.splits if_splits)

lemma lastActivityLoop_Max:
  "lastActivityLoop None accounts =
     (let S = {t. t \<noteq> 0 \<and> (\<exists>a \<in> set accounts. lastInboundAt a = Some t)}
      in if S = {} then None else Some (Max S))"
  using set_inboundStamps [of accounts]
  by (simp add: lastActivityLoop_foldl foldl_later_None Let_def flip: set_empty)

section \<open>The comparator sorts by enablement, then by index\<close>

lemma insertSorted_pass:
  "\<forall>y \<in> set ys. compare x y > 0 \<Longrightarrow>
     insertSorted compare x (ys @ zs) = ys @ insertSorted compare x zs"
  by (induction ys) auto

lemma insertSorted_front:
  "zs = [] \<or> compare x (hd zs) \<le> 0 \<Longrightarrow> insertSorted compare x zs = x # zs"
  by (cases zs) auto

lemma toSorted_Cons: "toSorted compare (x # xs) = insertSorted compare x (toSorted compare xs)"
  by (simp add: toSorted_def)

lemma hd_filter_append:
  "hd (filter P xs @ filter Q xs) \<in> set xs" if "filter P xs @ filter Q xs \<noteq> []"
proof -
  have "hd (filter P xs @ filter Q xs) \<in> set (filter P xs @ filter Q xs)"
    using that by (rule hd_in_set)
  then show ?thesis by auto
qed

lemma toSorted_compareChannels:
  "sorted_wrt (\<lambda>a b. oc_order a < oc_order b) xs \<Longrightarrow>
     toSorted compareChannels xs = filter oc_enabled xs @ filter (\<lambda>c. \<not> oc_enabled c) xs"
proof (induction xs)
  case Nil
  show ?case by (simp add: toSorted_def)
next
  case (Cons x xs)
  let ?E = "filter oc_enabled xs" and ?D = "filter (\<lambda>c. \<not> oc_enabled c) xs"
  have later: "\<And>y. y \<in> set xs \<Longrightarrow> oc_order x < oc_order y"
    using Cons.prems by simp
  have IH: "toSorted compareChannels xs = ?E @ ?D"
    using Cons.IH Cons.prems by simp
  show ?case
  proof (cases "oc_enabled x")
    case True
    have "?E @ ?D = [] \<or> compareChannels x (hd (?E @ ?D)) \<le> 0"
    proof (cases "?E @ ?D = []")
      case False
      then have "hd (?E @ ?D) \<in> set xs" by (rule hd_filter_append)
      then have "oc_order x < oc_order (hd (?E @ ?D))" by (rule later)
      then show ?thesis using True by (simp add: compareChannels_def)
    qed simp
    then have "insertSorted compareChannels x (?E @ ?D) = x # ?E @ ?D"
      by (rule insertSorted_front)
    then show ?thesis using True by (simp add: toSorted_Cons IH)
  next
    case False
    have pass: "\<forall>y \<in> set ?E. compareChannels x y > 0"
      using False by (simp add: compareChannels_def)
    have "?D = [] \<or> compareChannels x (hd ?D) \<le> 0"
    proof (cases "?D = []")
      case nonempty: False
      then have "hd ?D \<in> set ?D" by (rule hd_in_set)
      then have "hd ?D \<in> set xs" and "\<not> oc_enabled (hd ?D)" by auto
      then show ?thesis using False later [of "hd ?D"] by (simp add: compareChannels_def)
    qed simp
    then have "insertSorted compareChannels x ?D = x # ?D"
      by (rule insertSorted_front)
    then have "insertSorted compareChannels x (?E @ ?D) = ?E @ x # ?D"
      using pass insertSorted_pass [of ?E compareChannels x ?D] by simp
    then show ?thesis using False by (simp add: toSorted_Cons IH)
  qed
qed

lemma indexedChannels_entryOf:
  "indexedChannels ce props keys = map (entryOf ce props) (List.enumerate 0 keys)"
  by (simp add: indexedChannels_def entryOf_def case_prod_beta)

lemma sorted_enumerate: "sorted_wrt (\<lambda>p q. fst p < fst q) (List.enumerate n xs)"
  by (induction xs arbitrary: n) (auto simp: in_set_enumerate_eq)

lemma indexedChannels_sorted:
  "sorted_wrt (\<lambda>a b. oc_order a < oc_order b) (indexedChannels ce props keys)"
  using sorted_enumerate [of 0 keys]
  by (simp add: indexedChannels_entryOf sorted_wrt_map entryOf_def)

lemma keys_indexedChannels: "map oc_key (indexedChannels ce props keys) = keys"
  by (simp add: indexedChannels_entryOf entryOf_def comp_def)

lemma filter_enumerate_keys:
  "map (oc_key \<circ> entryOf ce props) (filter (\<lambda>p. P (ce (snd p) props)) (List.enumerate n keys))
     = filter (\<lambda>k. P (ce k props)) keys"
  by (induction keys arbitrary: n) (auto simp: entryOf_def)

lemma keys_filter_indexedChannels:
  "map oc_key (filter (\<lambda>c. P (oc_enabled c)) (indexedChannels ce props keys))
     = filter (\<lambda>k. P (ce k props)) keys"
  using filter_enumerate_keys [of ce props P 0 keys]
  by (simp add: indexedChannels_entryOf filter_map comp_def entryOf_def)

lemma orderedChannels_eq:
  "orderedChannels ce props =
     filter oc_enabled (indexedChannels ce props (resolveChannelOrder (snapshot props))) @
     filter (\<lambda>c. \<not> oc_enabled c) (indexedChannels ce props (resolveChannelOrder (snapshot props)))"
  unfolding orderedChannels_def
  by (rule toSorted_compareChannels) (rule indexedChannels_sorted)

lemma index_of_entry:
  "c \<in> set (indexedChannels ce props keys) \<Longrightarrow>
     0 \<le> oc_order c \<and> nat (oc_order c) < length keys \<and> keys ! nat (oc_order c) = oc_key c"
  by (auto simp: indexedChannels_entryOf entryOf_def in_set_enumerate_eq)

section \<open>What the summarizer and the views return\<close>

lemma map_result_total:
  "(\<And>x. x \<in> set xs \<Longrightarrow> f x = Inr (g x)) \<Longrightarrow> map_result f xs = Inr (map g xs)"
  by (induction xs) (simp_all add: bind_result_def)

lemma buildChannelListItem_eq:
  assumes "\<not> inheritsAccounts props key"
  shows "buildChannelListItem props key = Inr (summaryOf props key)"
proof -
  obtain l where l: "resolveChannelLabel (snapshot props) key = Inr l"
    using resolveChannelLabel_total by blast
  show ?thesis
    unfolding buildChannelListItem_def Let_def accountsOf_own [OF assms]
      boolean_or_false_eq nonempty_string_eq summaryOf_def l
    by (simp add: bind_result_def lastActivityOf_def)
qed

lemma buildChannelListItems_eq:
  "\<forall>key \<in> set keys. \<not> inheritsAccounts props key \<Longrightarrow>
     buildChannelListItems props keys = Inr (map (summaryOf props) keys)"
  unfolding buildChannelListItems_def
  by (rule map_result_total) (simp add: buildChannelListItem_eq)

lemma renderGenericStatus_eq:
  "renderGenericStatus cid props data =
     Inr (StatusList
       [(''Configured'',
           Text (case field_value (channelStatus props cid) ''configured'' of
                   JBool b \<Rightarrow> if b then ''Yes'' else ''No'' | _ \<Rightarrow> ''n/a'')),
        (''Running'',
           Text (case field_value (channelStatus props cid) ''running'' of
                   JBool b \<Rightarrow> if b then ''Yes'' else ''No'' | _ \<Rightarrow> ''n/a'')),
        (''Connected'',
           Text (case field_value (channelStatus props cid) ''connected'' of
                   JBool b \<Rightarrow> if b then ''Yes'' else ''No'' | _ \<Rightarrow> ''n/a'')),
        (''Last message'',
           ago_or_na (firstInbound (accountsOf (data_channelAccounts data) cid)))]
       (truthy_string (case field_value (channelStatus props cid) ''lastError'' of
                         JStr t \<Rightarrow> Some t | _ \<Rightarrow> None)))"
  by (simp add: renderGenericStatus_def Let_def bind_result_def boolean_or_undefined_eq
      string_or_undefined_eq yes_no_na_def split: jsval.splits)

lemmas eval_item =
  buildChannelListItems_def buildChannelListItem_def map_result.simps bind_result_def Let_def
  resolveChannelLabel_def resolveChannelMetaMap_def has_length_def record_get_def
  objectPrototype_def objectPrototypeMethods_def channelStatus_def accountsOf_def
  lastActivityOf_def getChannelAccountCount_def boolean_or_false_def nonempty_string_def
  falsy_num_def channelProps_def exampleProps_def emptySnapshot_def exampleAccount_def

lemmas eval_status =
  renderGenericStatus_def boolean_or_undefined_def string_or_undefined_def yes_no_na_def
  ago_or_na_def truthy_string_def firstInbound_def channelDataOf_def

lemma visible_default:
  "visibleTabs (createDefaultChannelTabs (Some \<lparr>hideAccounts = ha, hideActions = hx\<rparr>)) =
     [\<lparr>tab_id = STATUS, tab_label = ''Status'', tab_disabled = None, tab_hidden = None\<rparr>] @
     (if ha = Some True then []
      else [\<lparr>tab_id = ACCOUNTS, tab_label = ''Accounts'', tab_disabled = None, tab_hidden = ha\<rparr>]) @
     [\<lparr>tab_id = CONFIG, tab_label = ''Config'', tab_disabled = None, tab_hidden = None\<rparr>] @
     (if hx = Some True then []
      else [\<lparr>tab_id = ACTIONS, tab_label = ''Actions'', tab_disabled = None, tab_hidden = hx\<rparr>])"
  by (simp add: createDefaultChannelTabs_def visibleTabs_def)

lemma tabBar_eq:
  "tabBarOf ha hx tab =
     [tabButton tab ''status'' ''Status''] @
     (if ha = Some True then [] else [tabButton tab ''accounts'' ''Accounts'']) @
     [tabButton tab ''config'' ''Config''] @
     (if hx = Some True then [] else [tabButton tab ''actions'' ''Actions''])"
  unfolding tabBarOf_def renderChannelTabs_def visible_default tabButton_def
    STATUS_def ACCOUNTS_def CONFIG_def ACTIONS_def
  by (cases "ha = Some True"; cases "hx = Some True") simp_all

lemma tabBar_ids:
  "map tb_id (tabBarOf (Some h) None tab) =
     (if h then [STATUS, CONFIG, ACTIONS] else [STATUS, ACCOUNTS, CONFIG, ACTIONS])"
  unfolding tabBar_eq tabButton_def STATUS_def ACCOUNTS_def CONFIG_def ACTIONS_def
  by (cases h) simp_all

lemma renderChannelDetail_unfold:
  "renderChannelDetail p =
     bind_result
       (renderTabContent (channelId p) (activeTab p) (renderStatusContent p)
          (renderAccountsContent p) (renderActionsContent p))
       (\<lambda>shown.
          Inr \<lparr>dv_title = channelLabel p,
               dv_tabs = tabBarOf (Option.bind (hideTabs p) hide_accounts)
                           (Option.bind (hideTabs p) hide_actions) (activeTab p),
               dv_content = shown\<rparr>)"
  unfolding renderChannelDetail_def Let_def tabBarOf_def ..

lemma renderTabContent_accounts:
  "renderTabContent cid ''accounts'' statusSlot (Some r) actionsSlot = r"
  by (simp add: renderTabContent_def)

lemma renderTabContent_actions:
  "renderTabContent cid ''actions'' statusSlot accountsSlot (Some r) = r"
  by (simp add: renderTabContent_def)

lemma renderTabContent_other:
  "tab \<noteq> ''accounts'' \<Longrightarrow>
     renderTabContent cid tab (Some (Inr s)) accountsSlot (Some (Inr x)) =
       Inr (if tab = ''status'' then s else if tab = ''config'' then ConfigSection cid
            else if tab = ''actions'' then x else Nothing)"
  by (simp add: renderTabContent_def)

lemma renderWhatsAppActions_eq:
  "\<exists>linked. renderWhatsAppActions props wa =
     Inr (ActionButtons
            (\<lparr>btn_class = ''btn'', btn_disabled = whatsappBusy props,
              btn_click = OnWhatsAppStart False,
              btn_text = (if whatsappQrDataUrl props \<noteq> None then ''Refresh QR''
                          else ''Show QR Code'')\<rparr>
             # (if linked
                then [\<lparr>btn_class = ''btn btn-danger'', btn_disabled = whatsappBusy props,
                        btn_click = OnWhatsAppLogout, btn_text = ''Logout''\<rparr>]
                else []))
            (whatsappQrDataUrl props)
            (truthy_string (whatsappMessage props)))"
proof -
  obtain v where v: "opt_member wa ''linked'' = Inr v"
    using opt_member_Inr by blast
  show ?thesis
    by (rule exI [of _ "truthy v"])
      (auto simp: renderWhatsAppActions_def Let_def v bind_result_def)
qed



lemma renderWhatsAppActions_total: "\<exists>c. renderWhatsAppActions props wa = Inr c"
  using renderWhatsAppActions_eq [of props wa] by blast

lemma if_total:
  "\<exists>c. x = Inr c \<Longrightarrow> \<exists>c. y = Inr c \<Longrightarrow> \<exists>c. (if b then x else y) = Inr c"
  by simp

lemma Inr_total: "\<exists>c. Inr k = Inr c"
  by simp

lemma renderGenericStatus_total: "\<exists>c. renderGenericStatus cid props data = Inr c"
  unfolding renderGenericStatus_eq by (rule Inr_total)

lemma renderChannelStatus_total: "\<exists>c. renderChannelStatus cid props data = Inr c"
  unfolding renderChannelStatus_def
  by (intro if_total Inr_total renderGenericStatus_total)

lemma renderChannelActions_total: "\<exists>c. renderChannelActions cid props data = Inr c"
  unfolding renderChannelActions_def
  by (intro if_total Inr_total renderWhatsAppActions_total)

lemma renderProbe_eq:
  "cid \<in> {''telegram'', ''discord'', ''slack'', ''signal'', ''googlechat''} \<Longrightarrow>
     renderChannelActions cid props data = Inr (renderProbeActions props)"
  unfolding renderChannelActions_def by auto

lemma data_channelAccounts_of:
  "data_channelAccounts (channelDataOf props) = Option.bind (snapshot props) channelAccounts"
  by (simp add: channelDataOf_def)

lemma renderChannelAccounts_own:
  assumes "\<not> inheritsAccounts props cid"
  shows "renderChannelAccounts now cid (channelDataOf props) =
     Inr (if ownAccounts props cid = [] then Placeholder ''No accounts configured.''
          else AccountCardList (map (renderGenericAccount now) (ownAccounts props cid)))"
  unfolding renderChannelAccounts_def data_channelAccounts_of accountsOf_own [OF assms]
  by simp

lemma count_own_record:
  "\<not> (case Option.bind r (\<lambda>m. m cid) of None \<Rightarrow> 0 | Some accounts \<Rightarrow> int (length accounts)) < 2
    \<Longrightarrow> (case record_get r cid of Inherited v \<Rightarrow> False | _ \<Rightarrow> True)"
  for r :: "(string \<Rightarrow> ChannelAccountSnapshot list option) option"
proof (cases r)
  case None
  then show ?thesis by (simp add: record_get_def)
next
  case (Some m)
  assume "\<not> (case Option.bind r (\<lambda>m. m cid) of None \<Rightarrow> 0 | Some accounts \<Rightarrow> int (length accounts)) < 2"
  with Some show ?thesis
    by (cases "m cid") (simp_all add: record_get_def)
qed

lemma count_own:
  "\<not> getChannelAccountCount cid (Option.bind (snapshot props) channelAccounts) < 2
    \<Longrightarrow> \<not> inheritsAccounts props cid"
  unfolding getChannelAccountCount_def inheritsAccounts_def
  using count_own_record [of "Option.bind (snapshot props) channelAccounts" cid]
  by (cases "record_get (Option.bind (snapshot props) channelAccounts) cid") simp_all

lemma renderExpandedChannel_eq:
  obtains l s x where
    "resolveChannelLabel (snapshot props) cid = Inr l"
    "renderChannelStatus cid props (channelDataOf props) = Inr s"
    "renderChannelActions cid props (channelDataOf props) = Inr x"
    "renderExpandedChannel now cid props =
       bind_result
         (renderTabContent cid (activeChannelTab props) (Some (Inr s))
            (Some (renderChannelAccounts now cid (channelDataOf props))) (Some (Inr x)))
         (\<lambda>shown.
            Inr \<lparr>dv_title = l,
                 dv_tabs =
                   tabBarOf
                     (Some (getChannelAccountCount cid
                              (Option.bind (snapshot props) channelAccounts) < 2))
                     None (activeChannelTab props),
                 dv_content = shown\<rparr>)"
proof -
  obtain l where l: "resolveChannelLabel (snapshot props) cid = Inr l"
    using resolveChannelLabel_total by blast
  obtain s where s: "renderChannelStatus cid props (channelDataOf props) = Inr s"
    using renderChannelStatus_total by blast
  obtain x where x: "renderChannelActions cid props (channelDataOf props) = Inr x"
    using renderChannelActions_total by blast
  have "renderExpandedChannel now cid props =
       bind_result
         (renderTabContent cid (activeChannelTab props) (Some (Inr s))
            (Some (renderChannelAccounts now cid (channelDataOf props))) (Some (Inr x)))
         (\<lambda>shown.
            Inr \<lparr>dv_title = l,
                 dv_tabs =
                   tabBarOf
                     (Some (getChannelAccountCount cid
                              (Option.bind (snapshot props) channelAccounts) < 2))
                     None (activeChannelTab props),
                 dv_content = shown\<rparr>)"
    unfolding renderExpandedChannel_def Let_def l s x renderChannelDetail_unfold
    by (simp only: bind_result_def sum.case ChannelDetailProps.select_convs
        hide_tabs.select_convs Option.bind.simps)
  with l s x show ?thesis by (rule that)
qed

lemma tab_ids_distinct:
  "ACCOUNTS \<notin> set [STATUS, CONFIG, ACTIONS]" "ACCOUNTS \<in> set [STATUS, ACCOUNTS, CONFIG, ACTIONS]"
  by (simp_all add: STATUS_def ACCOUNTS_def CONFIG_def ACTIONS_def)

lemma renderExpandedChannel_total:
  assumes "activeChannelTab props \<noteq> ''accounts'' \<or> \<not> inheritsAccounts props cid"
  shows "\<exists>v. renderExpandedChannel now cid props = Inr v \<and>
     dv_tabs v = tabBarOf
       (Some (getChannelAccountCount cid (Option.bind (snapshot props) channelAccounts) < 2))
       None (activeChannelTab props)"
proof -
  obtain l s x where eq: "renderExpandedChannel now cid props =
       bind_result
         (renderTabContent cid (activeChannelTab props) (Some (Inr s))
            (Some (renderChannelAccounts now cid (channelDataOf props))) (Some (Inr x)))
         (\<lambda>shown.
            Inr \<lparr>dv_title = l,
                 dv_tabs =
                   tabBarOf
                     (Some (getChannelAccountCount cid
                              (Option.bind (snapshot props) channelAccounts) < 2))
                     None (activeChannelTab props),
                 dv_content = shown\<rparr>)"
    by (rule renderExpandedChannel_eq [of props cid now])
  have "\<exists>c. renderTabContent cid (activeChannelTab props) (Some (Inr s))
            (Some (renderChannelAccounts now cid (channelDataOf props))) (Some (Inr x)) = Inr c"
  proof (cases "activeChannelTab props = ''accounts''")
    case True
    with assms have own: "\<not> inheritsAccounts props cid" by simp
    show ?thesis
      unfolding True renderTabContent_accounts renderChannelAccounts_own [OF own]
      by (rule Inr_total)
  next
    case False
    then show ?thesis
      unfolding renderTabContent_other [OF False] by (intro Inr_total)
  qed
  then obtain c where "renderTabContent cid (activeChannelTab props) (Some (Inr s))
            (Some (renderChannelAccounts now cid (channelDataOf props))) (Some (Inr x)) = Inr c"
    by blast
  then show ?thesis
    unfolding eq by (simp add: bind_result_def)
qed

lemma renderExpandedChannel_tabs:
  assumes "renderExpandedChannel now cid props = Inr v"
  shows "dv_tabs v = tabBarOf
       (Some (getChannelAccountCount cid (Option.bind (snapshot props) channelAccounts) < 2))
       None (activeChannelTab props)"
proof -
  obtain l s x where eq: "renderExpandedChannel now cid props =
       bind_result
         (renderTabContent cid (activeChannelTab props) (Some (Inr s))
            (Some (renderChannelAccounts now cid (channelDataOf props))) (Some (Inr x)))
         (\<lambda>shown.
            Inr \<lparr>dv_title = l,
                 dv_tabs =
                   tabBarOf
                     (Some (getChannelAccountCount cid
                              (Option.bind (snapshot props) channelAccounts) < 2))
                     None (activeChannelTab props),
                 dv_content = shown\<rparr>)"
    by (rule renderExpandedChannel_eq [of props cid now])
  show ?thesis
    using assms unfolding eq
    by (cases "renderTabContent cid (activeChannelTab props) (Some (Inr s))
            (Some (renderChannelAccounts now cid (channelDataOf props))) (Some (Inr x))")
      (auto simp: bind_result_def)
qed

section \<open>Last activity of a channel (C1)\<close>

text \<open>
  C1, as amended. For every list of channel keys none of which makes the lookup in
  \<open>channelAccounts\<close> fall through to an inherited member of \<^verbatim>\<open>Object.prototype\<close>, the
  items are built, and for every channel the \<open>lastActivity\<close> of its item is the maximum
  of the \<open>lastInboundAt\<close> values of the channel's accounts that are neither null nor
  \<open>0\<close>; it is null exactly when no account has such a value, that is when every
  \<open>lastInboundAt\<close> is null or \<open>0\<close>.
\<close>

theorem lastActivity_is_max_nonzero_inbound:
  "(\<forall>key \<in> set keys. \<not> inheritsAccounts props key) \<longrightarrow>
   (\<exists>items. buildChannelListItems props keys = Inr items \<and>
     list_all2
       (\<lambda>key item.
          let accounts = ownAccounts props key;
              S = {t. t \<noteq> 0 \<and> (\<exists>a \<in> set accounts. lastInboundAt a = Some t)}
          in item_lastActivity item = (if S = {} then None else Some (Max S)) \<and>
             (item_lastActivity item = None) =
               (\<forall>a \<in> set accounts. lastInboundAt a = None \<or> lastInboundAt a = Some 0))
       keys items)"
proof
  assume own: "\<forall>key \<in> set keys. \<not> inheritsAccounts props key"
  have none_iff: "({t. t \<noteq> 0 \<and> (\<exists>a \<in> set accounts. lastInboundAt a = Some t)} = {}) =
      (\<forall>a \<in> set accounts. lastInboundAt a = None \<or> lastInboundAt a = Some 0)"
    for accounts :: "ChannelAccountSnapshot list"
  proof
    assume empty: "{t. t \<noteq> 0 \<and> (\<exists>a \<in> set accounts. lastInboundAt a = Some t)} = {}"
    show "\<forall>a \<in> set accounts. lastInboundAt a = None \<or> lastInboundAt a = Some 0"
    proof
      fix a assume a: "a \<in> set accounts"
      show "lastInboundAt a = None \<or> lastInboundAt a = Some 0"
      proof (cases "lastInboundAt a")
        case (Some t)
        with a empty have "t = 0" by blast
        with Some show ?thesis by simp
      qed simp
    qed
  next
    assume "\<forall>a \<in> set accounts. lastInboundAt a = None \<or> lastInboundAt a = Some 0"
    then show "{t. t \<noteq> 0 \<and> (\<exists>a \<in> set accounts. lastInboundAt a = Some t)} = {}"
      by fastforce
  qed
  have "list_all2
       (\<lambda>key item.
          let accounts = ownAccounts props key;
              S = {t. t \<noteq> 0 \<and> (\<exists>a \<in> set accounts. lastInboundAt a = Some t)}
          in item_lastActivity item = (if S = {} then None else Some (Max S)) \<and>
             (item_lastActivity item = None) =
               (\<forall>a \<in> set accounts. lastInboundAt a = None \<or> lastInboundAt a = Some 0))
       keys (map (summaryOf props) keys)"
    unfolding list_all2_map2 list_all2_same
  proof
    fix key assume "key \<in> set keys"
    show "let accounts = ownAccounts props key;
              S = {t. t \<noteq> 0 \<and> (\<exists>a \<in> set accounts. lastInboundAt a = Some t)}
          in item_lastActivity (summaryOf props key) = (if S = {} then None else Some (Max S)) \<and>
             (item_lastActivity (summaryOf props key) = None) =
               (\<forall>a \<in> set accounts. lastInboundAt a = None \<or> lastInboundAt a = Some 0)"
      using none_iff [of "ownAccounts props key"]
      by (simp add: summaryOf_def lastActivityLoop_Max Let_def)
  qed
  then show "\<exists>items. buildChannelListItems props keys = Inr items \<and>
     list_all2
       (\<lambda>key item.
          let accounts = ownAccounts props key;
              S = {t. t \<noteq> 0 \<and> (\<exists>a \<in> set accounts. lastInboundAt a = Some t)}
          in item_lastActivity item = (if S = {} then None else Some (Max S)) \<and>
             (item_lastActivity item = None) =
               (\<forall>a \<in> set accounts. lastInboundAt a = None \<or> lastInboundAt a = Some 0))
       keys items"
    by (simp add: buildChannelListItems_eq [OF own])
qed

theorem lastActivity_is_max_nonzero_inbound_witness:
  "\<not> inheritsAccounts
       (channelProps ''matrix'' JUndefined
          [exampleAccount\<lparr>lastInboundAt := Some 5000\<rparr>, exampleAccount,
           exampleAccount\<lparr>lastInboundAt := Some 7000\<rparr>, exampleAccount\<lparr>lastInboundAt := Some 7000\<rparr>,
           exampleAccount\<lparr>lastInboundAt := Some 0\<rparr>]) ''matrix'' \<and>
   \<not> inheritsAccounts
       (channelProps ''matrix'' JUndefined
          [exampleAccount\<lparr>lastInboundAt := Some 5000\<rparr>, exampleAccount,
           exampleAccount\<lparr>lastInboundAt := Some 7000\<rparr>, exampleAccount\<lparr>lastInboundAt := Some 7000\<rparr>,
           exampleAccount\<lparr>lastInboundAt := Some 0\<rparr>]) ''ghost'' \<and>
   buildChannelListItems
     (channelProps ''matrix'' JUndefined
        [exampleAccount\<lparr>lastInboundAt := Some 5000\<rparr>, exampleAccount,
         exampleAccount\<lparr>lastInboundAt := Some 7000\<rparr>, exampleAccount\<lparr>lastInboundAt := Some 7000\<rparr>,
         exampleAccount\<lparr>lastInboundAt := Some 0\<rparr>])
     [''matrix'', ''ghost''] =
     Inr [\<lparr>item_id = ''matrix'', item_label = JStr ''matrix'', item_configured = False,
           item_running = False, item_connected = False, item_accountCount = 5,
           item_lastActivity = Some 7000, item_hasError = False\<rparr>,
          \<lparr>item_id = ''ghost'', item_label = JStr ''ghost'', item_configured = False,
           item_running = False, item_connected = False, item_accountCount = 0,
           item_lastActivity = None, item_hasError = False\<rparr>]"
  using lastActivity_is_max_nonzero_inbound
    [of "[''matrix'', ''ghost'']" "channelProps ''matrix'' JUndefined
        [exampleAccount\<lparr>lastInboundAt := Some 5000\<rparr>, exampleAccount,
         exampleAccount\<lparr>lastInboundAt := Some 7000\<rparr>, exampleAccount\<lparr>lastInboundAt := Some 7000\<rparr>,
         exampleAccount\<lparr>lastInboundAt := Some 0\<rparr>]"]
  by (simp add: eval_item inheritsAccounts_def)

text \<open>
  The claim as first stated asks for a non-null \<open>lastActivity\<close> as soon as one account
  has a non-null \<open>lastInboundAt\<close>. The loop tests \<^verbatim>\<open>account.lastInboundAt && ...\<close>, so an
  account whose only timestamp is \<open>0\<close> leaves \<open>lastActivity\<close> null.
\<close>

theorem lastActivity_epoch_counterexample:
  "lastInboundAt (exampleAccount\<lparr>lastInboundAt := Some 0\<rparr>) = Some 0 \<and>
   buildChannelListItems
     (channelProps ''matrix'' JUndefined [exampleAccount\<lparr>lastInboundAt := Some 0\<rparr>]) [''matrix''] =
     Inr [\<lparr>item_id = ''matrix'', item_label = JStr ''matrix'', item_configured = False,
           item_running = False, item_connected = False, item_accountCount = 1,
           item_lastActivity = None, item_hasError = False\<rparr>]"
  by (simp add: eval_item)

section \<open>Absent booleans in the two views (C2)\<close>

text \<open>
  C2, as amended. For every channel status record and each of the fields \<open>configured\<close>,
  \<open>running\<close>, \<open>connected\<close>: the generic status view shows \<open>n/a\<close> when the field is absent
  or not a boolean, and \<open>Yes\<close> or \<open>No\<close> when it is the boolean true or false, so an absent
  field is told apart from an explicit false; the derived list item, built for every key
  whose lookup in \<open>channelAccounts\<close> inherits nothing, holds the boolean when the field
  is one and \<open>false\<close> otherwise, so there an absent field and an explicit false are the
  same value.
\<close>

theorem boolean_field_surfacing:
  "(\<exists>last callout.
      renderGenericStatus cid props data =
        Inr (StatusList
          [(''Configured'',
              Text (case field_value (channelStatus props cid) ''configured'' of
                      JBool b \<Rightarrow> if b then ''Yes'' else ''No'' | _ \<Rightarrow> ''n/a'')),
           (''Running'',
              Text (case field_value (channelStatus props cid) ''running'' of
                      JBool b \<Rightarrow> if b then ''Yes'' else ''No'' | _ \<Rightarrow> ''n/a'')),
           (''Connected'',
              Text (case field_value (channelStatus props cid) ''connected'' of
                      JBool b \<Rightarrow> if b then ''Yes'' else ''No'' | _ \<Rightarrow> ''n/a'')),
           (''Last message'', last)]
          callout)) \<and>
   (\<not> inheritsAccounts props cid \<longrightarrow>
    (\<exists>item.
      buildChannelListItems props [cid] = Inr [item] \<and>
      item_configured item =
        (case field_value (channelStatus props cid) ''configured'' of
           JBool b \<Rightarrow> b | _ \<Rightarrow> False) \<and>
      item_running item =
        (case field_value (channelStatus props cid) ''running'' of
           JBool b \<Rightarrow> b | _ \<Rightarrow> False) \<and>
      item_connected item =
        (case field_value (channelStatus props cid) ''connected'' of
           JBool b \<Rightarrow> b | _ \<Rightarrow> False)))"
proof (intro conjI impI)
  show "\<exists>last callout.
      renderGenericStatus cid props data =
        Inr (StatusList
          [(''Configured'',
              Text (case field_value (channelStatus props cid) ''configured'' of
                      JBool b \<Rightarrow> if b then ''Yes'' else ''No'' | _ \<Rightarrow> ''n/a'')),
           (''Running'',
              Text (case field_value (channelStatus props cid) ''running'' of
                      JBool b \<Rightarrow> if b then ''Yes'' else ''No'' | _ \<Rightarrow> ''n/a'')),
           (''Connected'',
              Text (case field_value (channelStatus props cid) ''connected'' of
                      JBool b \<Rightarrow> if b then ''Yes'' else ''No'' | _ \<Rightarrow> ''n/a'')),
           (''Last message'', last)]
          callout)"
    by (intro exI) (rule renderGenericStatus_eq)
next
  assume own: "\<not> inheritsAccounts props cid"
  have build: "buildChannelListItems props [cid] = Inr [summaryOf props cid]"
    using buildChannelListItems_eq [of "[cid]" props] own by simp
  have "item_configured (summaryOf props cid) =
        (case field_value (channelStatus props cid) ''configured'' of
           JBool b \<Rightarrow> b | _ \<Rightarrow> False)"
    and "item_running (summaryOf props cid) =
        (case field_value (channelStatus props cid) ''running'' of
           JBool b \<Rightarrow> b | _ \<Rightarrow> False)"
    and "item_connected (summaryOf props cid) =
        (case field_value (channelStatus props cid) ''connected'' of
           JBool b \<Rightarrow> b | _ \<Rightarrow> False)"
    by (simp_all add: summaryOf_def split: jsval.splits)
  then show "\<exists>item.
      buildChannelListItems props [cid] = Inr [item] \<and>
      item_configured item =
        (case field_value (channelStatus props cid) ''configured'' of
           JBool b \<Rightarrow> b | _ \<Rightarrow> False) \<and>
      item_running item =
        (case field_value (channelStatus props cid) ''running'' of
           JBool b \<Rightarrow> b | _ \<Rightarrow> False) \<and>
      item_connected item =
        (case field_value (channelStatus props cid) ''connected'' of
           JBool b \<Rightarrow> b | _ \<Rightarrow> False)"
    unfolding build by simp
qed

theorem boolean_field_surfacing_witness:
  "\<not> inheritsAccounts
       (channelProps ''matrix'' (JObj [''running'' \<mapsto> JBool False, ''connected'' \<mapsto> JStr ''yes'']) [])
       ''matrix'' \<and>
   renderGenericStatus ''matrix''
     (channelProps ''matrix'' (JObj [''running'' \<mapsto> JBool False, ''connected'' \<mapsto> JStr ''yes'']) [])
     (channelDataOf
        (channelProps ''matrix'' (JObj [''running'' \<mapsto> JBool False, ''connected'' \<mapsto> JStr ''yes'']) [])) =
     Inr (StatusList
            [(''Configured'', Text ''n/a''), (''Running'', Text ''No''),
             (''Connected'', Text ''n/a''), (''Last message'', Text ''n/a'')]
            None) \<and>
   buildChannelListItems
     (channelProps ''matrix'' (JObj [''running'' \<mapsto> JBool False, ''connected'' \<mapsto> JStr ''yes'']) [])
     [''matrix''] =
     Inr [\<lparr>item_id = ''matrix'', item_label = JStr ''matrix'', item_configured = False,
           item_running = False, item_connected = False, item_accountCount = 0,
           item_lastActivity = None, item_hasError = False\<rparr>]"
  using boolean_field_surfacing
    [of "''matrix''"
        "channelProps ''matrix'' (JObj [''running'' \<mapsto> JBool False, ''connected'' \<mapsto> JStr ''yes'']) []"
        "channelDataOf
           (channelProps ''matrix'' (JObj [''running'' \<mapsto> JBool False, ''connected'' \<mapsto> JStr ''yes'']) [])"]
  by (simp add: eval_item eval_status inheritsAccounts_def)

text \<open>
  The claim as first stated wants the distinction kept in the list item too. A status
  record with no boolean field and one with all three set to \<open>false\<close> give the same item.
\<close>

theorem list_item_absent_equals_false_counterexample:
  "buildChannelListItems (channelProps ''matrix'' (JObj Map.empty) []) [''matrix''] =
     Inr [\<lparr>item_id = ''matrix'', item_label = JStr ''matrix'', item_configured = False,
           item_running = False, item_connected = False, item_accountCount = 0,
           item_lastActivity = None, item_hasError = False\<rparr>] \<and>
   buildChannelListItems
     (channelProps ''matrix''
        (JObj [''configured'' \<mapsto> JBool False, ''running'' \<mapsto> JBool False,
               ''connected'' \<mapsto> JBool False]) [])
     [''matrix''] =
     Inr [\<lparr>item_id = ''matrix'', item_label = JStr ''matrix'', item_configured = False,
           item_running = False, item_connected = False, item_accountCount = 0,
           item_lastActivity = None, item_hasError = False\<rparr>]"
  by (simp add: eval_item)

section \<open>Connected state of an account (C3)\<close>

text \<open>
  C3. \<open>deriveConnectedStatus\<close> (the specification's \<open>connectedState\<close>) answers \<open>Yes\<close>
  when \<open>connected\<close> is exactly true; \<open>No\<close> when it is exactly false, whatever the
  activity of the account; and, when \<open>connected\<close> is unknown, \<open>Active\<close> if the account
  has recent inbound activity and \<open>n/a\<close> if it has none.
\<close>

theorem deriveConnectedStatus_cases:
  "(connected account = Some True \<longrightarrow> deriveConnectedStatus now account = Yes) \<and>
   (connected account = Some False \<longrightarrow> deriveConnectedStatus now account = No) \<and>
   (connected account = None \<and> hasRecentActivity now account \<longrightarrow>
      deriveConnectedStatus now account = Active) \<and>
   (connected account = None \<and> \<not> hasRecentActivity now account \<longrightarrow>
      deriveConnectedStatus now account = NA)"
  by (simp add: deriveConnectedStatus_def)

theorem deriveConnectedStatus_cases_witness:
  "deriveConnectedStatus 1000000
     (exampleAccount\<lparr>connected := Some True\<rparr>) = Yes \<and>
   deriveConnectedStatus 1000000
     (exampleAccount\<lparr>connected := Some False, lastInboundAt := Some 999000\<rparr>) = No \<and>
   deriveConnectedStatus 1000000
     (exampleAccount\<lparr>lastInboundAt := Some 999000\<rparr>) = Active \<and>
   deriveConnectedStatus 1000000 exampleAccount = NA"
  using
    deriveConnectedStatus_cases [of "exampleAccount\<lparr>connected := Some True\<rparr>" 1000000]
    deriveConnectedStatus_cases
      [of "exampleAccount\<lparr>connected := Some False, lastInboundAt := Some 999000\<rparr>" 1000000]
    deriveConnectedStatus_cases [of "exampleAccount\<lparr>lastInboundAt := Some 999000\<rparr>" 1000000]
    deriveConnectedStatus_cases [of exampleAccount 1000000]
  by (simp add: exampleAccount_def hasRecentActivity_def falsy_num_def
      RECENT_ACTIVITY_THRESHOLD_MS_def)

section \<open>Recent activity (C4)\<close>

text \<open>
  C4, as amended. For every account and every current time \<open>now\<close>,
  \<open>hasRecentActivity\<close> is true exactly when \<open>lastInboundAt\<close> is neither null nor \<open>0\<close> and
  \<open>now - lastInboundAt\<close> is strictly less than 600000 milliseconds; it is false whenever
  \<open>lastInboundAt\<close> is null.
\<close>

theorem hasRecentActivity_iff:
  "hasRecentActivity now account =
     (\<exists>t. lastInboundAt account = Some t \<and> t \<noteq> 0 \<and> now - t < 600000)"
  by (cases "lastInboundAt account")
    (simp_all add: hasRecentActivity_def falsy_num_def RECENT_ACTIVITY_THRESHOLD_MS_def)

theorem hasRecentActivity_iff_witness:
  "hasRecentActivity 1000000 (exampleAccount\<lparr>lastInboundAt := Some 700000\<rparr>) \<and>
   \<not> hasRecentActivity 1000000 (exampleAccount\<lparr>lastInboundAt := Some 100000\<rparr>) \<and>
   \<not> hasRecentActivity 1000000 (exampleAccount\<lparr>lastInboundAt := Some 400000\<rparr>) \<and>
   \<not> hasRecentActivity 1000000 exampleAccount"
  using
    hasRecentActivity_iff [of 1000000 "exampleAccount\<lparr>lastInboundAt := Some 700000\<rparr>"]
    hasRecentActivity_iff [of 1000000 "exampleAccount\<lparr>lastInboundAt := Some 100000\<rparr>"]
    hasRecentActivity_iff [of 1000000 "exampleAccount\<lparr>lastInboundAt := Some 400000\<rparr>"]
    hasRecentActivity_iff [of 1000000 exampleAccount]
  by (simp add: exampleAccount_def)

text \<open>
  The claim as first stated makes every non-null timestamp within the threshold recent.
  \<^verbatim>\<open>!account.lastInboundAt\<close> also rejects the timestamp \<open>0\<close>: at \<open>now = 1000\<close> it is
  non-null and one second old, and the answer is false.
\<close>

theorem hasRecentActivity_epoch_counterexample:
  "lastInboundAt (exampleAccount\<lparr>lastInboundAt := Some 0\<rparr>) \<noteq> None \<and>
   (1000::int) - the (lastInboundAt (exampleAccount\<lparr>lastInboundAt := Some 0\<rparr>)) < 600000 \<and>
   \<not> hasRecentActivity 1000 (exampleAccount\<lparr>lastInboundAt := Some 0\<rparr>)"
  by (simp add: hasRecentActivity_def falsy_num_def exampleAccount_def)

section \<open>Display order (C5)\<close>

text \<open>
  C5. For every snapshot and every enablement of the channels, the display order has the
  length of the canonical order and is a permutation of it; it is the enabled channels of
  the canonical order followed by the disabled ones, each group in canonical order: it
  splits into a group of enabled entries and a group of disabled entries, each sorted by
  the index the entry had in the canonical order.
\<close>

theorem display_order_stable_partition:
  fixes ce :: "string \<Rightarrow> ChannelsProps \<Rightarrow> bool"
  defines "canon \<equiv> \<lambda>props. resolveChannelOrder (snapshot props)"
  shows
  "length (orderedChannels ce props) = length (canon props) \<and>
   mset (map oc_key (orderedChannels ce props)) = mset (canon props) \<and>
   map oc_key (orderedChannels ce props) =
     filter (\<lambda>k. ce k props) (canon props) @ filter (\<lambda>k. \<not> ce k props) (canon props) \<and>
   (\<exists>es ds. orderedChannels ce props = es @ ds \<and>
      (\<forall>c \<in> set es. oc_enabled c) \<and> (\<forall>c \<in> set ds. \<not> oc_enabled c) \<and>
      sorted_wrt (<) (map oc_order es) \<and> sorted_wrt (<) (map oc_order ds)) \<and>
   (\<forall>c \<in> set (orderedChannels ce props).
      oc_enabled c = ce (oc_key c) props \<and> 0 \<le> oc_order c \<and>
      nat (oc_order c) < length (canon props) \<and> canon props ! nat (oc_order c) = oc_key c)"
proof -
  let ?ix = "indexedChannels ce props (canon props)"
  let ?es = "filter oc_enabled ?ix" and ?ds = "filter (\<lambda>c. \<not> oc_enabled c) ?ix"
  have eq: "orderedChannels ce props = ?es @ ?ds"
    unfolding canon_def by (rule orderedChannels_eq)
  have keys: "map oc_key (orderedChannels ce props) =
      filter (\<lambda>k. ce k props) (canon props) @ filter (\<lambda>k. \<not> ce k props) (canon props)"
    using keys_filter_indexedChannels [of "\<lambda>b. b" ce props "canon props"]
      keys_filter_indexedChannels [of "\<lambda>b. \<not> b" ce props "canon props"]
    by (simp add: eq)
  have perm: "mset (map oc_key (orderedChannels ce props)) = mset (canon props)"
    by (simp add: keys)
  have len: "length (orderedChannels ce props) = length (canon props)"
    using perm [THEN arg_cong, of size] by simp
  have sorted_ix: "sorted_wrt (<) (map oc_order ?ix)"
    using indexedChannels_sorted [of ce props "canon props"] by (simp add: sorted_wrt_map)
  have s1: "sorted_wrt (<) (map oc_order ?es)"
    using indexedChannels_sorted [of ce props "canon props"]
    by (simp add: sorted_wrt_map sorted_wrt_filter)
  have s2: "sorted_wrt (<) (map oc_order ?ds)"
    using indexedChannels_sorted [of ce props "canon props"]
    by (simp add: sorted_wrt_map sorted_wrt_filter)
  have groups: "\<exists>es ds. orderedChannels ce props = es @ ds \<and>
      (\<forall>c \<in> set es. oc_enabled c) \<and> (\<forall>c \<in> set ds. \<not> oc_enabled c) \<and>
      sorted_wrt (<) (map oc_order es) \<and> sorted_wrt (<) (map oc_order ds)"
    using eq s1 s2 by (intro exI [of _ ?es] exI [of _ ?ds]) simp
  have entries: "\<forall>c \<in> set (orderedChannels ce props).
      oc_enabled c = ce (oc_key c) props \<and> 0 \<le> oc_order c \<and>
      nat (oc_order c) < length (canon props) \<and> canon props ! nat (oc_order c) = oc_key c"
  proof
    fix c assume "c \<in> set (orderedChannels ce props)"
    then have c: "c \<in> set ?ix" by (auto simp: eq)
    then have "oc_enabled c = ce (oc_key c) props"
      by (auto simp: indexedChannels_entryOf entryOf_def)
    with index_of_entry [OF c] show "oc_enabled c = ce (oc_key c) props \<and> 0 \<le> oc_order c \<and>
      nat (oc_order c) < length (canon props) \<and> canon props ! nat (oc_order c) = oc_key c"
      by simp
  qed
  from len perm keys groups entries show ?thesis by blast
qed

theorem display_order_stable_partition_witness:
  "map oc_key
     (orderedChannels (\<lambda>key props. key \<noteq> ''B'')
        (exampleProps\<lparr>snapshot := Some (emptySnapshot\<lparr>channelOrder := Some [''A'', ''B'', ''C'']\<rparr>)\<rparr>))
   = [''A'', ''C'', ''B'']"
  using display_order_stable_partition
    [of "\<lambda>key props. key \<noteq> ''B''"
        "exampleProps\<lparr>snapshot := Some (emptySnapshot\<lparr>channelOrder := Some [''A'', ''B'', ''C'']\<rparr>)\<rparr>"]
  by (simp add: exampleProps_def emptySnapshot_def resolveChannelOrder_def has_length_def)

section \<open>Canonical order (C6)\<close>

text \<open>
  C6. \<open>resolveChannelOrder\<close> returns the ids of \<open>channelMeta\<close> in their listed order when
  \<open>channelMeta\<close> is there and not empty; otherwise \<open>channelOrder\<close> as it is when it is
  there and not empty; otherwise the default sequence whatsapp, telegram, discord,
  googlechat, slack, signal, imessage, nostr, which is also the answer for a null snapshot.
\<close>

theorem resolveChannelOrder_priority:
  "resolveChannelOrder s =
     (case s of
        None \<Rightarrow> defaultChannelOrder
      | Some sn \<Rightarrow>
          (if channelMeta sn \<noteq> None \<and> the (channelMeta sn) \<noteq> []
           then map meta_id (the (channelMeta sn))
           else if channelOrder sn \<noteq> None \<and> the (channelOrder sn) \<noteq> []
           then the (channelOrder sn)
           else defaultChannelOrder)) \<and>
   defaultChannelOrder =
     [''whatsapp'', ''telegram'', ''discord'', ''googlechat'', ''slack'', ''signal'',
      ''imessage'', ''nostr'']"
  by (auto simp: resolveChannelOrder_def has_length_def defaultChannelOrder_def
      split: option.splits)

theorem resolveChannelOrder_priority_witness:
  "resolveChannelOrder
     (Some (emptySnapshot
        \<lparr>channelMeta := Some [\<lparr>meta_id = ''matrix'', meta_label = Some ''Matrix''\<rparr>,
                              \<lparr>meta_id = ''whatsapp'', meta_label = None\<rparr>],
         channelOrder := Some [''slack'']\<rparr>)) = [''matrix'', ''whatsapp''] \<and>
   resolveChannelOrder
     (Some (emptySnapshot\<lparr>channelMeta := Some [], channelOrder := Some [''slack'', ''irc'']\<rparr>))
     = [''slack'', ''irc''] \<and>
   resolveChannelOrder (Some (emptySnapshot\<lparr>channelOrder := Some []\<rparr>)) =
     [''whatsapp'', ''telegram'', ''discord'', ''googlechat'', ''slack'', ''signal'',
      ''imessage'', ''nostr''] \<and>
   resolveChannelOrder None =
     [''whatsapp'', ''telegram'', ''discord'', ''googlechat'', ''slack'', ''signal'',
      ''imessage'', ''nostr'']"
  using
    resolveChannelOrder_priority
      [of "Some (emptySnapshot
        \<lparr>channelMeta := Some [\<lparr>meta_id = ''matrix'', meta_label = Some ''Matrix''\<rparr>,
                              \<lparr>meta_id = ''whatsapp'', meta_label = None\<rparr>],
         channelOrder := Some [''slack'']\<rparr>)"]
    resolveChannelOrder_priority
      [of "Some (emptySnapshot\<lparr>channelMeta := Some [], channelOrder := Some [''slack'', ''irc'']\<rparr>)"]
    resolveChannelOrder_priority [of "Some (emptySnapshot\<lparr>channelOrder := Some []\<rparr>)"]
    resolveChannelOrder_priority [of None]
  by (simp add: emptySnapshot_def)

section \<open>The Accounts tab (C7)\<close>

text \<open>
  C7. Whenever the detail card of an expanded channel renders, its tab bar is status,
  config, actions when the channel's account count is below 2 and status, accounts,
  config, actions otherwise: the Accounts tab is in the bar exactly when the count is at
  least 2. The card renders unless the active tab is accounts and the lookup in
  \<open>channelAccounts\<close> inherits a member of \<^verbatim>\<open>Object.prototype\<close>; with a count of 2 or
  more it always renders, with the Accounts tab in its bar.
\<close>

theorem accounts_tab_hidden_iff:
  "(\<forall>v. renderExpandedChannel now cid props = Inr v \<longrightarrow>
      map tb_id (dv_tabs v) =
        (if getChannelAccountCount cid (Option.bind (snapshot props) channelAccounts) < 2
         then [STATUS, CONFIG, ACTIONS] else [STATUS, ACCOUNTS, CONFIG, ACTIONS]) \<and>
      (ACCOUNTS \<in> set (map tb_id (dv_tabs v))) =
        (\<not> getChannelAccountCount cid (Option.bind (snapshot props) channelAccounts) < 2)) \<and>
   (activeChannelTab props \<noteq> ''accounts'' \<or> \<not> inheritsAccounts props cid \<longrightarrow>
      (\<exists>v. renderExpandedChannel now cid props = Inr v)) \<and>
   (\<not> getChannelAccountCount cid (Option.bind (snapshot props) channelAccounts) < 2 \<longrightarrow>
      (\<exists>v. renderExpandedChannel now cid props = Inr v \<and>
         map tb_id (dv_tabs v) = [STATUS, ACCOUNTS, CONFIG, ACTIONS]))"
proof (intro conjI allI impI)
  let ?few = "getChannelAccountCount cid (Option.bind (snapshot props) channelAccounts) < 2"
  fix v assume v: "renderExpandedChannel now cid props = Inr v"
  have tabs: "dv_tabs v = tabBarOf (Some ?few) None (activeChannelTab props)"
    using v by (rule renderExpandedChannel_tabs)
  show ids: "map tb_id (dv_tabs v) =
       (if ?few then [STATUS, CONFIG, ACTIONS] else [STATUS, ACCOUNTS, CONFIG, ACTIONS])"
    by (simp only: tabs tabBar_ids)
  show "(ACCOUNTS \<in> set (map tb_id (dv_tabs v))) = (\<not> ?few)"
    unfolding ids using tab_ids_distinct by (cases ?few) simp_all
next
  assume "activeChannelTab props \<noteq> ''accounts'' \<or> \<not> inheritsAccounts props cid"
  then have "\<exists>v. renderExpandedChannel now cid props = Inr v \<and>
     dv_tabs v = tabBarOf
       (Some (getChannelAccountCount cid (Option.bind (snapshot props) channelAccounts) < 2))
       None (activeChannelTab props)"
    by (rule renderExpandedChannel_total)
  then show "\<exists>v. renderExpandedChannel now cid props = Inr v"
    by (elim exE conjE) (rule exI)
next
  let ?few = "getChannelAccountCount cid (Option.bind (snapshot props) channelAccounts) < 2"
  assume many: "\<not> ?few"
  then have "\<not> inheritsAccounts props cid" by (rule count_own)
  then have "activeChannelTab props \<noteq> ''accounts'' \<or> \<not> inheritsAccounts props cid" ..
  then have "\<exists>v. renderExpandedChannel now cid props = Inr v \<and>
     dv_tabs v = tabBarOf (Some ?few) None (activeChannelTab props)"
    by (rule renderExpandedChannel_total)
  then show "\<exists>v. renderExpandedChannel now cid props = Inr v \<and>
         map tb_id (dv_tabs v) = [STATUS, ACCOUNTS, CONFIG, ACTIONS]"
  proof (elim exE conjE)
    fix v assume v: "renderExpandedChannel now cid props = Inr v"
      and tabs: "dv_tabs v = tabBarOf (Some ?few) None (activeChannelTab props)"
    have "map tb_id (dv_tabs v) = [STATUS, ACCOUNTS, CONFIG, ACTIONS]"
      using many by (simp only: tabs tabBar_ids if_False)
    with v show ?thesis by (intro exI conjI)
  qed
qed

theorem accounts_tab_hidden_iff_witness:
  "(case renderExpandedChannel 0 ''matrix'' (channelProps ''matrix'' JUndefined []) of
      Inl e \<Rightarrow> False
    | Inr v \<Rightarrow> map tb_id (dv_tabs v) = [''status'', ''config'', ''actions'']) \<and>
   (case renderExpandedChannel 0 ''matrix'' (channelProps ''matrix'' JUndefined [exampleAccount]) of
      Inl e \<Rightarrow> False
    | Inr v \<Rightarrow> map tb_id (dv_tabs v) = [''status'', ''config'', ''actions'']) \<and>
   (case renderExpandedChannel 0 ''matrix''
           (channelProps ''matrix'' JUndefined
              [exampleAccount, exampleAccount\<lparr>accountId := ''work''\<rparr>]) of
      Inl e \<Rightarrow> False
    | Inr v \<Rightarrow> map tb_id (dv_tabs v) = [''status'', ''accounts'', ''config'', ''actions''])"
proof -
  have count:
    "getChannelAccountCount ''matrix''
       (Option.bind (snapshot (channelProps ''matrix'' JUndefined accounts)) channelAccounts) =
     int (length accounts)" for accounts
    by (simp add: getChannelAccountCount_def channelProps_def exampleProps_def
        emptySnapshot_def)
  have ids: "[STATUS, CONFIG, ACTIONS] = [''status'', ''config'', ''actions'']"
    "[STATUS, ACCOUNTS, CONFIG, ACTIONS] = [''status'', ''accounts'', ''config'', ''actions'']"
    by (simp_all add: STATUS_def ACCOUNTS_def CONFIG_def ACTIONS_def)
  have step: "\<exists>v. renderExpandedChannel 0 ''matrix'' (channelProps ''matrix'' JUndefined accounts)
        = Inr v \<and>
      map tb_id (dv_tabs v) =
        (if int (length accounts) < 2 then [''status'', ''config'', ''actions'']
         else [''status'', ''accounts'', ''config'', ''actions''])" for accounts
  proof -
    let ?P = "channelProps ''matrix'' JUndefined accounts"
    have hyp: "activeChannelTab ?P \<noteq> ''accounts'' \<or> \<not> inheritsAccounts ?P ''matrix''"
      by (simp add: channelProps_def exampleProps_def)
    have "\<exists>v. renderExpandedChannel 0 ''matrix'' ?P = Inr v"
      by (rule accounts_tab_hidden_iff
          [of 0 "''matrix''" ?P, THEN conjunct2, THEN conjunct1, THEN mp, OF hyp])
    then obtain v where v: "renderExpandedChannel 0 ''matrix'' ?P = Inr v" ..
    have "map tb_id (dv_tabs v) =
        (if getChannelAccountCount ''matrix'' (Option.bind (snapshot ?P) channelAccounts) < 2
         then [STATUS, CONFIG, ACTIONS] else [STATUS, ACCOUNTS, CONFIG, ACTIONS])"
      by (rule accounts_tab_hidden_iff
          [of 0 "''matrix''" ?P, THEN conjunct1, THEN spec, THEN mp, OF v, THEN conjunct1])
    then have "map tb_id (dv_tabs v) =
        (if int (length accounts) < 2 then [''status'', ''config'', ''actions'']
         else [''status'', ''accounts'', ''config'', ''actions''])"
      unfolding count ids .
    with v show ?thesis by (intro exI conjI)
  qed
  have none: "case renderExpandedChannel 0 ''matrix'' (channelProps ''matrix'' JUndefined []) of
      Inl e \<Rightarrow> False
    | Inr v \<Rightarrow> map tb_id (dv_tabs v) = [''status'', ''config'', ''actions'']"
    using step [of "[]"] by (elim exE conjE) simp
  have one: "case renderExpandedChannel 0 ''matrix''
        (channelProps ''matrix'' JUndefined [exampleAccount]) of
      Inl e \<Rightarrow> False
    | Inr v \<Rightarrow> map tb_id (dv_tabs v) = [''status'', ''config'', ''actions'']"
    using step [of "[exampleAccount]"] by (elim exE conjE) simp
  have two: "case renderExpandedChannel 0 ''matrix''
           (channelProps ''matrix'' JUndefined
              [exampleAccount, exampleAccount\<lparr>accountId := ''work''\<rparr>]) of
      Inl e \<Rightarrow> False
    | Inr v \<Rightarrow> map tb_id (dv_tabs v) = [''status'', ''accounts'', ''config'', ''actions'']"
    using step [of "[exampleAccount, exampleAccount\<lparr>accountId := ''work''\<rparr>]"]
    by (elim exE conjE) simp
  from none one two show ?thesis by (intro conjI)
qed

section \<open>Action buttons and the busy flag (C8)\<close>

text \<open>
  C8, as amended. The WhatsApp actions always offer the QR button, and the logout button
  when the account is linked; every button offered is disabled exactly while
  \<open>whatsappBusy\<close> is set. For telegram, discord, slack, signal and googlechat the actions
  are the single probe-connection button, which has no disabled binding and is enabled
  whatever the props say.
\<close>

theorem action_buttons_disabled_when_busy:
  "(\<exists>buttons qr message.
      renderChannelActions ''whatsapp'' props data = Inr (ActionButtons buttons qr message) \<and>
      buttons \<noteq> [] \<and> (\<forall>b \<in> set buttons. btn_disabled b = whatsappBusy props)) \<and>
   (cid \<in> {''telegram'', ''discord'', ''slack'', ''signal'', ''googlechat''} \<longrightarrow>
      renderChannelActions cid props data =
        Inr (ActionButtons
               [\<lparr>btn_class = ''btn'', btn_disabled = False, btn_click = OnRefresh True,
                 btn_text = ''Probe Connection''\<rparr>]
               None None))"
proof
  obtain linked where wa: "renderWhatsAppActions props (whatsapp data) =
     Inr (ActionButtons
            (\<lparr>btn_class = ''btn'', btn_disabled = whatsappBusy props,
              btn_click = OnWhatsAppStart False,
              btn_text = (if whatsappQrDataUrl props \<noteq> None then ''Refresh QR''
                          else ''Show QR Code'')\<rparr>
             # (if linked
                then [\<lparr>btn_class = ''btn btn-danger'', btn_disabled = whatsappBusy props,
                        btn_click = OnWhatsAppLogout, btn_text = ''Logout''\<rparr>]
                else []))
            (whatsappQrDataUrl props)
            (truthy_string (whatsappMessage props)))"
    using renderWhatsAppActions_eq [of props "whatsapp data"] by blast
  have "renderChannelActions ''whatsapp'' props data = renderWhatsAppActions props (whatsapp data)"
    unfolding renderChannelActions_def by (simp only: simp_thms if_True)
  then show "\<exists>buttons qr message.
      renderChannelActions ''whatsapp'' props data = Inr (ActionButtons buttons qr message) \<and>
      buttons \<noteq> [] \<and> (\<forall>b \<in> set buttons. btn_disabled b = whatsappBusy props)"
    unfolding wa by (cases linked) simp_all
next
  show "cid \<in> {''telegram'', ''discord'', ''slack'', ''signal'', ''googlechat''} \<longrightarrow>
      renderChannelActions cid props data =
        Inr (ActionButtons
               [\<lparr>btn_class = ''btn'', btn_disabled = False, btn_click = OnRefresh True,
                 btn_text = ''Probe Connection''\<rparr>]
               None None)"
    using renderProbe_eq [of cid props data] by (simp only: renderProbeActions_def) blast
qed

theorem action_buttons_disabled_when_busy_witness:
  "renderChannelActions ''whatsapp''
     (channelProps ''whatsapp'' (JObj [''linked'' \<mapsto> JBool True]) []\<lparr>whatsappBusy := True\<rparr>)
     (channelDataOf
        (channelProps ''whatsapp'' (JObj [''linked'' \<mapsto> JBool True]) []\<lparr>whatsappBusy := True\<rparr>)) =
     Inr (ActionButtons
            [\<lparr>btn_class = ''btn'', btn_disabled = True, btn_click = OnWhatsAppStart False,
              btn_text = ''Show QR Code''\<rparr>,
             \<lparr>btn_class = ''btn btn-danger'', btn_disabled = True,
              btn_click = OnWhatsAppLogout, btn_text = ''Logout''\<rparr>]
            None None) \<and>
   renderChannelActions ''slack'' exampleProps (channelDataOf exampleProps) =
     Inr (ActionButtons
            [\<lparr>btn_class = ''btn'', btn_disabled = False, btn_click = OnRefresh True,
              btn_text = ''Probe Connection''\<rparr>]
            None None)"
  using
    action_buttons_disabled_when_busy
      [of "channelProps ''whatsapp'' (JObj [''linked'' \<mapsto> JBool True]) []\<lparr>whatsappBusy := True\<rparr>"
          "channelDataOf
             (channelProps ''whatsapp'' (JObj [''linked'' \<mapsto> JBool True]) []\<lparr>whatsappBusy := True\<rparr>)"
          "''slack''"]
    action_buttons_disabled_when_busy [of exampleProps "channelDataOf exampleProps" "''slack''"]
  by (simp add: renderChannelActions_def renderWhatsAppActions_def renderProbeActions_def
      channelDataOf_def channelStatus_def record_get_def objectPrototype_def
      objectPrototypeMethods_def channelProps_def exampleProps_def emptySnapshot_def
      bind_result_def truthy_string_def)

text \<open>
  The claim as first stated has the probe button disabled while the busy flag is set.
  With \<open>whatsappBusy\<close> and \<open>loading\<close> both set, the probe button of telegram is enabled.
\<close>

text \<open>
  The claim as first stated has the probe button disabled while the busy flag is set.
  With \<open>whatsappBusy\<close> and \<open>loading\<close> both set, the probe button of telegram is enabled.
\<close>

theorem probe_button_enabled_while_busy_counterexample:
  "whatsappBusy (exampleProps\<lparr>loading := True, whatsappBusy := True\<rparr>) \<and>
   loading (exampleProps\<lparr>loading := True, whatsappBusy := True\<rparr>) \<and>
   renderChannelActions ''telegram'' (exampleProps\<lparr>loading := True, whatsappBusy := True\<rparr>)
     (channelDataOf (exampleProps\<lparr>loading := True, whatsappBusy := True\<rparr>)) =
     Inr (ActionButtons
            [\<lparr>btn_class = ''btn'', btn_disabled = False, btn_click = OnRefresh True,
              btn_text = ''Probe Connection''\<rparr>]
            None None)"
  by (simp add: renderChannelActions_def renderProbeActions_def exampleProps_def)

section \<open>The summarizer and inherited keys (C9)\<close>

text \<open>
  C9. The claim is that building the list items never throws, whatever the snapshot and
  whether or not it knows the keys. The code does throw: with the snapshot
  \<^verbatim>\<open>{channelOrder: ["constructor"], channels: {}, channelAccounts: {}}\<close> the key
  \<^verbatim>\<open>constructor\<close> is absent from \<open>channelAccounts\<close>, the lookup
  \<^verbatim>\<open>channelAccounts?.[key] ?? []\<close> finds the inherited function \<^verbatim>\<open>Object\<close>, which is
  not nullish and not iterable, and the \<^verbatim>\<open>for...of\<close> over it throws a TypeError.
\<close>

theorem buildChannelListItems_throws_on_inherited_key:
  "buildChannelListItems
     (exampleProps
        \<lparr>snapshot := Some (emptySnapshot
           \<lparr>channelOrder := Some [''constructor''], channels := Some Map.empty,
            channelAccounts := Some Map.empty\<rparr>)\<rparr>)
     (resolveChannelOrder
        (Some (emptySnapshot
           \<lparr>channelOrder := Some [''constructor''], channels := Some Map.empty,
            channelAccounts := Some Map.empty\<rparr>))) = Inl TypeError"
  by (simp add: eval_item resolveChannelOrder_def)

section \<open>A hidden tab still has content (C10)\<close>

text \<open>
  C10. Hiding a tab removes its button from the tab bar and nothing else. In the detail
  composer, when the accounts tab is hidden and is the active tab, the card is what the
  accounts slot renders under a bar of the status and config buttons, and of the actions
  button unless that is hidden too; the same holds of a hidden, active actions tab. For
  every expanded channel with fewer than 2 accounts whose active tab is accounts, the
  card is the accounts content of the channel under the bar status, config, actions;
  that content is the placeholder or the account cards whenever the lookup in
  \<open>channelAccounts\<close> inherits nothing.
\<close>

theorem hidden_tab_content_still_rendered:
  "(Option.bind (hideTabs p) hide_accounts = Some True \<and> activeTab p = ''accounts'' \<and>
    renderAccountsContent p = Some r \<longrightarrow>
      renderChannelDetail p =
        bind_result r (\<lambda>shown.
          Inr \<lparr>dv_title = channelLabel p,
               dv_tabs =
                 [\<lparr>tb_id = ''status'', tb_label = ''Status'', tb_active = False,
                   tb_disabled = False\<rparr>,
                  \<lparr>tb_id = ''config'', tb_label = ''Config'', tb_active = False,
                   tb_disabled = False\<rparr>] @
                 (if Option.bind (hideTabs p) hide_actions = Some True then []
                  else [\<lparr>tb_id = ''actions'', tb_label = ''Actions'', tb_active = False,
                         tb_disabled = False\<rparr>]),
               dv_content = shown\<rparr>)) \<and>
   (Option.bind (hideTabs p) hide_actions = Some True \<and> activeTab p = ''actions'' \<and>
    renderActionsContent p = Some r \<longrightarrow>
      renderChannelDetail p =
        bind_result r (\<lambda>shown.
          Inr \<lparr>dv_title = channelLabel p,
               dv_tabs =
                 [\<lparr>tb_id = ''status'', tb_label = ''Status'', tb_active = False,
                   tb_disabled = False\<rparr>] @
                 (if Option.bind (hideTabs p) hide_accounts = Some True then []
                  else [\<lparr>tb_id = ''accounts'', tb_label = ''Accounts'', tb_active = False,
                         tb_disabled = False\<rparr>]) @
                 [\<lparr>tb_id = ''config'', tb_label = ''Config'', tb_active = False,
                   tb_disabled = False\<rparr>],
               dv_content = shown\<rparr>)) \<and>
   (getChannelAccountCount cid (Option.bind (snapshot props) channelAccounts) < 2 \<and>
    activeChannelTab props = ''accounts'' \<longrightarrow>
      (\<exists>label.
         resolveChannelLabel (snapshot props) cid = Inr label \<and>
         renderExpandedChannel now cid props =
           bind_result (renderChannelAccounts now cid (channelDataOf props)) (\<lambda>shown.
             Inr \<lparr>dv_title = label,
                  dv_tabs =
                    [\<lparr>tb_id = ''status'', tb_label = ''Status'', tb_active = False,
                      tb_disabled = False\<rparr>,
                     \<lparr>tb_id = ''config'', tb_label = ''Config'', tb_active = False,
                      tb_disabled = False\<rparr>,
                     \<lparr>tb_id = ''actions'', tb_label = ''Actions'', tb_active = False,
                      tb_disabled = False\<rparr>],
                  dv_content = shown\<rparr>))) \<and>
   (\<not> inheritsAccounts props cid \<longrightarrow>
      renderChannelAccounts now cid (channelDataOf props) =
        Inr (if ownAccounts props cid = [] then Placeholder ''No accounts configured.''
             else AccountCardList (map (renderGenericAccount now) (ownAccounts props cid))))"
proof (intro conjI impI)
  assume a: "Option.bind (hideTabs p) hide_accounts = Some True \<and> activeTab p = ''accounts'' \<and>
    renderAccountsContent p = Some r"
  then have h: "Option.bind (hideTabs p) hide_accounts = Some True"
    and t: "activeTab p = ''accounts''" and slot: "renderAccountsContent p = Some r"
    by simp_all
  show "renderChannelDetail p =
        bind_result r (\<lambda>shown.
          Inr \<lparr>dv_title = channelLabel p,
               dv_tabs =
                 [\<lparr>tb_id = ''status'', tb_label = ''Status'', tb_active = False,
                   tb_disabled = False\<rparr>,
                  \<lparr>tb_id = ''config'', tb_label = ''Config'', tb_active = False,
                   tb_disabled = False\<rparr>] @
                 (if Option.bind (hideTabs p) hide_actions = Some True then []
                  else [\<lparr>tb_id = ''actions'', tb_label = ''Actions'', tb_active = False,
                         tb_disabled = False\<rparr>]),
               dv_content = shown\<rparr>)"
    unfolding renderChannelDetail_unfold h t slot renderTabContent_accounts tabBar_eq
      tabButton_def
    by simp
next
  assume a: "Option.bind (hideTabs p) hide_actions = Some True \<and> activeTab p = ''actions'' \<and>
    renderActionsContent p = Some r"
  then have h: "Option.bind (hideTabs p) hide_actions = Some True"
    and t: "activeTab p = ''actions''" and slot: "renderActionsContent p = Some r"
    by simp_all
  show "renderChannelDetail p =
        bind_result r (\<lambda>shown.
          Inr \<lparr>dv_title = channelLabel p,
               dv_tabs =
                 [\<lparr>tb_id = ''status'', tb_label = ''Status'', tb_active = False,
                   tb_disabled = False\<rparr>] @
                 (if Option.bind (hideTabs p) hide_accounts = Some True then []
                  else [\<lparr>tb_id = ''accounts'', tb_label = ''Accounts'', tb_active = False,
                         tb_disabled = False\<rparr>]) @
                 [\<lparr>tb_id = ''config'', tb_label = ''Config'', tb_active = False,
                   tb_disabled = False\<rparr>],
               dv_content = shown\<rparr>)"
    unfolding renderChannelDetail_unfold h t slot renderTabContent_actions tabBar_eq
      tabButton_def
    by simp
next
  assume b: "getChannelAccountCount cid (Option.bind (snapshot props) channelAccounts) < 2 \<and>
    activeChannelTab props = ''accounts''"
  then have few: "(getChannelAccountCount cid (Option.bind (snapshot props) channelAccounts) < 2)
      = True"
    and t: "activeChannelTab props = ''accounts''"
    by simp_all
  obtain l s x where l: "resolveChannelLabel (snapshot props) cid = Inr l"
    and eq: "renderExpandedChannel now cid props =
       bind_result
         (renderTabContent cid (activeChannelTab props) (Some (Inr s))
            (Some (renderChannelAccounts now cid (channelDataOf props))) (Some (Inr x)))
         (\<lambda>shown.
            Inr \<lparr>dv_title = l,
                 dv_tabs =
                   tabBarOf
                     (Some (getChannelAccountCount cid
                              (Option.bind (snapshot props) channelAccounts) < 2))
                     None (activeChannelTab props),
                 dv_content = shown\<rparr>)"
    by (rule renderExpandedChannel_eq [of props cid now])
  have "renderExpandedChannel now cid props =
           bind_result (renderChannelAccounts now cid (channelDataOf props)) (\<lambda>shown.
             Inr \<lparr>dv_title = l,
                  dv_tabs =
                    [\<lparr>tb_id = ''status'', tb_label = ''Status'', tb_active = False,
                      tb_disabled = False\<rparr>,
                     \<lparr>tb_id = ''config'', tb_label = ''Config'', tb_active = False,
                      tb_disabled = False\<rparr>,
                     \<lparr>tb_id = ''actions'', tb_label = ''Actions'', tb_active = False,
                      tb_disabled = False\<rparr>],
                  dv_content = shown\<rparr>)"
    unfolding eq few t renderTabContent_accounts tabBar_eq tabButton_def
    by simp
  with l show "\<exists>label.
         resolveChannelLabel (snapshot props) cid = Inr label \<and>
         renderExpandedChannel now cid props =
           bind_result (renderChannelAccounts now cid (channelDataOf props)) (\<lambda>shown.
             Inr \<lparr>dv_title = label,
                  dv_tabs =
                    [\<lparr>tb_id = ''status'', tb_label = ''Status'', tb_active = False,
                      tb_disabled = False\<rparr>,
                     \<lparr>tb_id = ''config'', tb_label = ''Config'', tb_active = False,
                      tb_disabled = False\<rparr>,
                     \<lparr>tb_id = ''actions'', tb_label = ''Actions'', tb_active = False,
                      tb_disabled = False\<rparr>],
                  dv_content = shown\<rparr>)"
    by (intro exI conjI)
next
  assume "\<not> inheritsAccounts props cid"
  then show "renderChannelAccounts now cid (channelDataOf props) =
        Inr (if ownAccounts props cid = [] then Placeholder ''No accounts configured.''
             else AccountCardList (map (renderGenericAccount now) (ownAccounts props cid)))"
    by (rule renderChannelAccounts_own)
qed

theorem hidden_tab_content_still_rendered_witness:
  "renderExpandedChannel 1000000 ''matrix''
     (channelProps ''matrix'' JUndefined [exampleAccount]\<lparr>activeChannelTab := ''accounts''\<rparr>) =
     Inr \<lparr>dv_title = JStr ''matrix'',
          dv_tabs =
            [\<lparr>tb_id = ''status'', tb_label = ''Status'', tb_active = False, tb_disabled = False\<rparr>,
             \<lparr>tb_id = ''config'', tb_label = ''Config'', tb_active = False, tb_disabled = False\<rparr>,
             \<lparr>tb_id = ''actions'', tb_label = ''Actions'', tb_active = False,
              tb_disabled = False\<rparr>],
          dv_content =
            AccountCardList
              [\<lparr>card_title = ''default'', card_id = ''default'', card_running = No,
                card_configured = ''Yes'', card_connected = NA,
                card_lastInbound = Text ''n/a'', card_error = None\<rparr>]\<rparr> \<and>
   renderChannelDetail exampleDetailProps =
     Inr \<lparr>dv_title = JStr ''Slack'',
          dv_tabs =
            [\<lparr>tb_id = ''status'', tb_label = ''Status'', tb_active = False, tb_disabled = False\<rparr>,
             \<lparr>tb_id = ''accounts'', tb_label = ''Accounts'', tb_active = False,
              tb_disabled = False\<rparr>,
             \<lparr>tb_id = ''config'', tb_label = ''Config'', tb_active = False, tb_disabled = False\<rparr>],
          dv_content = renderProbeActions exampleProps\<rparr> \<and>
   renderChannelDetail
     (exampleDetailProps
        \<lparr>activeTab := ''accounts'',
         hideTabs := Some \<lparr>hide_accounts = Some True, hide_actions = None\<rparr>,
         renderAccountsContent := Some (Inr renderDefaultAccounts)\<rparr>) =
     Inr \<lparr>dv_title = JStr ''Slack'',
          dv_tabs =
            [\<lparr>tb_id = ''status'', tb_label = ''Status'', tb_active = False, tb_disabled = False\<rparr>,
             \<lparr>tb_id = ''config'', tb_label = ''Config'', tb_active = False, tb_disabled = False\<rparr>,
             \<lparr>tb_id = ''actions'', tb_label = ''Actions'', tb_active = False,
              tb_disabled = False\<rparr>],
          dv_content = renderDefaultAccounts\<rparr>"
proof -
  let ?props = "channelProps ''matrix'' JUndefined [exampleAccount]\<lparr>activeChannelTab := ''accounts''\<rparr>"
  have few: "getChannelAccountCount ''matrix'' (Option.bind (snapshot ?props) channelAccounts) < 2 \<and>
      activeChannelTab ?props = ''accounts''"
    by (simp add: getChannelAccountCount_def channelProps_def exampleProps_def emptySnapshot_def)
  have own: "\<not> inheritsAccounts ?props ''matrix''"
    by (simp add: inheritsAccounts_def record_get_def channelProps_def exampleProps_def
        emptySnapshot_def)
  have label: "resolveChannelLabel (snapshot ?props) ''matrix'' = Inr (JStr ''matrix'')"
    by (simp add: resolveChannelLabel_def resolveChannelMetaMap_def has_length_def
        record_get_def objectPrototype_def objectPrototypeMethods_def bind_result_def
        channelProps_def exampleProps_def emptySnapshot_def)
  have accounts: "ownAccounts ?props ''matrix'' = [exampleAccount]"
    by (simp add: ownAccounts_def channelProps_def exampleProps_def emptySnapshot_def)
  have card: "renderGenericAccount 1000000 exampleAccount =
      \<lparr>card_title = ''default'', card_id = ''default'', card_running = No,
       card_configured = ''Yes'', card_connected = NA,
       card_lastInbound = Text ''n/a'', card_error = None\<rparr>"
    by (simp add: renderGenericAccount_def exampleAccount_def deriveRunningStatus_def
        deriveConnectedStatus_def hasRecentActivity_def falsy_num_def ago_or_na_def
        truthy_string_def)
  have shown: "renderChannelAccounts 1000000 ''matrix'' (channelDataOf ?props) =
      Inr (AccountCardList
        [\<lparr>card_title = ''default'', card_id = ''default'', card_running = No,
          card_configured = ''Yes'', card_connected = NA,
          card_lastInbound = Text ''n/a'', card_error = None\<rparr>])"
    using hidden_tab_content_still_rendered
      [where cid = "''matrix''" and props = ?props and now = 1000000,
        THEN conjunct2, THEN conjunct2, THEN conjunct2, THEN mp, OF own]
    unfolding accounts by (simp add: card)
  have "\<exists>l. resolveChannelLabel (snapshot ?props) ''matrix'' = Inr l \<and>
      renderExpandedChannel 1000000 ''matrix'' ?props =
        bind_result (renderChannelAccounts 1000000 ''matrix'' (channelDataOf ?props)) (\<lambda>shown.
          Inr \<lparr>dv_title = l,
               dv_tabs =
                 [\<lparr>tb_id = ''status'', tb_label = ''Status'', tb_active = False,
                   tb_disabled = False\<rparr>,
                  \<lparr>tb_id = ''config'', tb_label = ''Config'', tb_active = False,
                   tb_disabled = False\<rparr>,
                  \<lparr>tb_id = ''actions'', tb_label = ''Actions'', tb_active = False,
                   tb_disabled = False\<rparr>],
               dv_content = shown\<rparr>)"
    by (rule hidden_tab_content_still_rendered
        [where cid = "''matrix''" and props = ?props and now = 1000000,
          THEN conjunct2, THEN conjunct2, THEN conjunct1, THEN mp, OF few])
  then have expanded: "renderExpandedChannel 1000000 ''matrix'' ?props =
     Inr \<lparr>dv_title = JStr ''matrix'',
          dv_tabs =
            [\<lparr>tb_id = ''status'', tb_label = ''Status'', tb_active = False, tb_disabled = False\<rparr>,
             \<lparr>tb_id = ''config'', tb_label = ''Config'', tb_active = False, tb_disabled = False\<rparr>,
             \<lparr>tb_id = ''actions'', tb_label = ''Actions'', tb_active = False,
              tb_disabled = False\<rparr>],
          dv_content =
            AccountCardList
              [\<lparr>card_title = ''default'', card_id = ''default'', card_running = No,
                card_configured = ''Yes'', card_connected = NA,
                card_lastInbound = Text ''n/a'', card_error = None\<rparr>]\<rparr>"
    unfolding label shown by (elim exE conjE) (simp add: bind_result_def)
  have hypA: "Option.bind (hideTabs exampleDetailProps) hide_actions = Some True \<and>
      activeTab exampleDetailProps = ''actions'' \<and>
      renderActionsContent exampleDetailProps = Some (Inr (renderProbeActions exampleProps))"
    by (simp add: exampleDetailProps_def)
  have actions: "renderChannelDetail exampleDetailProps =
     Inr \<lparr>dv_title = JStr ''Slack'',
          dv_tabs =
            [\<lparr>tb_id = ''status'', tb_label = ''Status'', tb_active = False, tb_disabled = False\<rparr>,
             \<lparr>tb_id = ''accounts'', tb_label = ''Accounts'', tb_active = False,
              tb_disabled = False\<rparr>,
             \<lparr>tb_id = ''config'', tb_label = ''Config'', tb_active = False, tb_disabled = False\<rparr>],
          dv_content = renderProbeActions exampleProps\<rparr>"
    using hidden_tab_content_still_rendered
      [where p = exampleDetailProps and r = "Inr (renderProbeActions exampleProps)",
        THEN conjunct2, THEN conjunct1, THEN mp, OF hypA]
    by (simp add: bind_result_def exampleDetailProps_def)
  let ?q = "exampleDetailProps
        \<lparr>activeTab := ''accounts'',
         hideTabs := Some \<lparr>hide_accounts = Some True, hide_actions = None\<rparr>,
         renderAccountsContent := Some (Inr renderDefaultAccounts)\<rparr>"
  have hypB: "Option.bind (hideTabs ?q) hide_accounts = Some True \<and>
      activeTab ?q = ''accounts'' \<and>
      renderAccountsContent ?q = Some (Inr renderDefaultAccounts)"
    by simp
  have accountsTab: "renderChannelDetail ?q =
     Inr \<lparr>dv_title = JStr ''Slack'',
          dv_tabs =
            [\<lparr>tb_id = ''status'', tb_label = ''Status'', tb_active = False, tb_disabled = False\<rparr>,
             \<lparr>tb_id = ''config'', tb_label = ''Config'', tb_active = False, tb_disabled = False\<rparr>,
             \<lparr>tb_id = ''actions'', tb_label = ''Actions'', tb_active = False,
              tb_disabled = False\<rparr>],
          dv_content = renderDefaultAccounts\<rparr>"
    using hidden_tab_content_still_rendered
      [where p = ?q and r = "Inr renderDefaultAccounts", THEN conjunct1, THEN mp, OF hypB]
    by (simp add: bind_result_def exampleDetailProps_def)
  from expanded actions accountsTab show ?thesis by (intro conjI)
qed

end
